theory Spec2Isabelle
  imports Complex_Main
begin

section \<open>Python values, errors and the external framework\<close>

text \<open>
  The notebook \<^verbatim>\<open>transformer_in_transformer.ipynb\<close> defines the TNT model by calling
  layers of an external tensor framework. A Python exception is a value \<open>Inl e\<close>; a
  statement sequence is a chain of \<open>bindR\<close>, which stops at the first exception.
\<close>

datatype error =
    ZeroDivisionError
  | ValueError
  | FrameworkShapeError
  | FrameworkArgError

definition bindR :: "error + 'a \<Rightarrow> ('a \<Rightarrow> error + 'b) \<Rightarrow> error + 'b" where
  "bindR m k = (case m of Inl e \<Rightarrow> Inl e | Inr a \<Rightarrow> k a)"

text \<open>A static tensor shape: every dimension is an integer or \<open>None\<close> (unknown).\<close>

type_synonym dims = "int option list"

text \<open>A constructed layer is a callable on tensors.\<close>

type_synonym 't layer = "'t \<Rightarrow> error + 't"

datatype padding = SAME | VALID

datatype activation = Linear | Gelu | Softmax

text \<open>
  The framework is the external collaborator: the core calls its layers and tensor
  functions and does nothing else with tensors. It is a parameter of every function of
  the core. \<open>'t\<close> is the framework's tensor type, \<open>'w\<close> is whatever the framework attaches
  to a freshly constructed layer (its trainable weights, or its random state). Every
  \<^verbatim>\<open>layers.X(...)\<close> of the source constructs a fresh layer, so each construction site
  receives its own \<open>'w\<close>. A constructor either raises or returns the callable layer.
  Float hyperparameters are handed to the framework as they are; they are modelled by
  the real number their literal denotes.
\<close>

record ('t, 'w) framework =
  tensor_shape :: "'t \<Rightarrow> dims"
  layers_Input :: "int list \<Rightarrow> error + 't"
  layers_Rescaling :: "real \<Rightarrow> error + 't layer"
  layers_Resizing :: "int \<Rightarrow> int \<Rightarrow> error + 't layer"
  layers_RandomFlip :: "string \<Rightarrow> 'w \<Rightarrow> error + 't layer"
  layers_RandomRotation :: "real \<Rightarrow> 'w \<Rightarrow> error + 't layer"
  layers_RandomContrast :: "real \<Rightarrow> 'w \<Rightarrow> error + 't layer"
  layers_RandomZoom :: "real \<Rightarrow> real \<Rightarrow> 'w \<Rightarrow> error + 't layer"
  layers_Conv2D :: "int \<Rightarrow> int \<Rightarrow> int \<Rightarrow> padding \<Rightarrow> 'w \<Rightarrow> error + 't layer"
  tf_image_extract_patches ::
    "'t \<Rightarrow> int list \<Rightarrow> int list \<Rightarrow> int list \<Rightarrow> padding \<Rightarrow> error + 't"
  tf_reshape :: "'t \<Rightarrow> int option list \<Rightarrow> error + 't"
  layers_Dense :: "int \<Rightarrow> activation \<Rightarrow> 'w \<Rightarrow> error + 't layer"
  layers_Embedding :: "int \<Rightarrow> int \<Rightarrow> 'w \<Rightarrow> error + 't layer"
  tf_range :: "int \<Rightarrow> int \<Rightarrow> error + 't"
  tf_add :: "'t \<Rightarrow> 't \<Rightarrow> error + 't"
  layers_LayerNormalization :: "real \<Rightarrow> 'w \<Rightarrow> error + 't layer"
  layers_Dropout :: "real \<Rightarrow> 'w \<Rightarrow> error + 't layer"
  layers_MultiHeadAttention ::
    "int \<Rightarrow> int \<Rightarrow> real \<Rightarrow> 'w \<Rightarrow> error + ('t \<Rightarrow> 't layer)"
  layers_add :: "'t list \<Rightarrow> error + 't"
  layers_GlobalAvgPool1D :: "error + 't layer"

text \<open>\<^verbatim>\<open>layers.X(...)(x)\<close>: construct the layer, then call it on \<open>x\<close>.\<close>

definition call_layer :: "error + 't layer \<Rightarrow> 't \<Rightarrow> error + 't" where
  "call_layer ctor x = bindR ctor (\<lambda>l. l x)"

text \<open>\<^verbatim>\<open>layers.MultiHeadAttention(...)(query, value)\<close>.\<close>

definition call_layer2 :: "error + ('t \<Rightarrow> 't layer) \<Rightarrow> 't \<Rightarrow> 't \<Rightarrow> error + 't" where
  "call_layer2 ctor q v = bindR ctor (\<lambda>l. l q v)"

text \<open>Python's \<^verbatim>\<open>a // b\<close> on integers: floor division, raising on a zero divisor.\<close>

definition py_floordiv :: "int \<Rightarrow> int \<Rightarrow> error + int" where
  "py_floordiv a b = (if b = 0 then Inl ZeroDivisionError else Inr (a div b))"

text \<open>
  \<^verbatim>\<open>math.ceil(a / b)\<close> on integers. The true division is a float division; for
  operands below \<open>2^53\<close> in absolute value the rounded quotient of a non-integral
  fraction lies strictly between the two neighbouring integers, so the ceiling taken is
  the exact one, which is what the model computes.
\<close>

definition math_ceil_truediv :: "int \<Rightarrow> int \<Rightarrow> error + int" where
  "math_ceil_truediv a b =
     (if b = 0 then Inl ZeroDivisionError else Inr \<lceil>real_of_int a / real_of_int b\<rceil>)"

section \<open>The hyperparameters of the notebook (module-level variables)\<close>

definition num_classes :: int where "num_classes = 100"
definition input_shape :: "int list" where "input_shape = [32, 32, 3]"
definition image_size :: "int \<times> int" where "image_size = (96, 96)"
definition patch_size :: "int \<times> int" where "patch_size = (8, 8)"
definition outer_block_embedding_dim :: int where "outer_block_embedding_dim = 64"
definition inner_block_embedding_dim :: int where "inner_block_embedding_dim = 32"
definition num_transformer_layer :: int where "num_transformer_layer = 5"
definition outer_block_num_heads :: int where "outer_block_num_heads = 4"
definition inner_block_num_heads :: int where "inner_block_num_heads = 2"
definition mlp_ratio :: int where "mlp_ratio = 4"
definition attention_dropout :: real where "attention_dropout = 5 / 10"
definition projection_dropout :: real where "projection_dropout = 5 / 10"
definition first_stride :: int where "first_stride = 4"

section \<open>The weights of each construction site\<close>

record 'w PatchEncoder_weights =
  w_projection :: 'w
  w_position_embedding :: 'w

record 'w data_augmentation_weights =
  w_flip :: 'w
  w_rotation :: 'w
  w_contrast :: 'w
  w_zoom :: 'w

record 'w pixel_embed_weights =
  w_conv :: 'w
  w_pixel_encoder :: "'w PatchEncoder_weights"

record 'w patch_embed_weights =
  w_norm1 :: 'w
  w_dense :: 'w
  w_norm2 :: 'w
  w_patch_encoder :: "'w PatchEncoder_weights"
  w_dropout :: 'w

record 'w mlp_weights =
  w_dense1 :: 'w
  w_drop1 :: 'w
  w_dense2 :: 'w
  w_drop2 :: 'w

record 'w block_weights =
  w_in_norm1 :: 'w
  w_in_attention :: 'w
  w_in_norm2 :: 'w
  w_in_mlp :: "'w mlp_weights"
  w_fuse_norm :: 'w
  w_fuse_dense :: 'w
  w_out_norm1 :: 'w
  w_out_attention :: 'w
  w_out_norm2 :: 'w
  w_out_mlp :: "'w mlp_weights"

record 'w model_weights =
  w_augmentation :: "'w data_augmentation_weights"
  w_pixel_embed :: "'w pixel_embed_weights"
  w_patch_embed :: "'w patch_embed_weights"
  w_blocks :: "nat \<Rightarrow> 'w block_weights"
  w_final_norm :: 'w
  w_head :: 'w

section \<open>The source functions\<close>

subsection \<open>\<^verbatim>\<open>data_augmentation\<close>\<close>

definition data_augmentation ::
  "('t, 'w) framework \<Rightarrow> 'w data_augmentation_weights \<Rightarrow> 't \<Rightarrow> error + 't" where
  "data_augmentation fw w inputs =
     bindR (call_layer (layers_Rescaling fw (1 / 255)) inputs) (\<lambda>x.
     bindR (call_layer (layers_Resizing fw (fst image_size) (snd image_size)) x) (\<lambda>x.
     bindR (call_layer (layers_RandomFlip fw ''horizontal'' (w_flip w)) x) (\<lambda>x.
     bindR (call_layer (layers_RandomRotation fw (1 / 10) (w_rotation w)) x) (\<lambda>x.
     bindR (call_layer (layers_RandomContrast fw (1 / 10) (w_contrast w)) x) (\<lambda>x.
     bindR (call_layer (layers_RandomZoom fw (2 / 10) (2 / 10) (w_zoom w)) x) (\<lambda>x.
     Inr x))))))"

subsection \<open>\<^verbatim>\<open>class PatchEncoder\<close>\<close>

record 't PatchEncoder =
  pe_num_patches :: int
  pe_projection :: "'t layer"
  pe_position_embedding :: "'t layer"

definition PatchEncoder_init ::
  "('t, 'w) framework \<Rightarrow> 'w PatchEncoder_weights \<Rightarrow> int \<Rightarrow> int \<Rightarrow> error + 't PatchEncoder" where
  "PatchEncoder_init fw w num_patches projection_dim =
     bindR (layers_Dense fw projection_dim Linear (w_projection w)) (\<lambda>projection.
     bindR (layers_Embedding fw num_patches projection_dim (w_position_embedding w))
       (\<lambda>position_embedding.
     Inr \<lparr>pe_num_patches = num_patches, pe_projection = projection,
          pe_position_embedding = position_embedding\<rparr>))"

definition PatchEncoder_call ::
  "('t, 'w) framework \<Rightarrow> 't PatchEncoder \<Rightarrow> 't \<Rightarrow> error + 't" where
  "PatchEncoder_call fw self patch =
     bindR (tf_range fw 0 (pe_num_patches self)) (\<lambda>positions.
     bindR (pe_projection self patch) (\<lambda>projected.
     bindR (pe_position_embedding self positions) (\<lambda>embedded.
     tf_add fw projected embedded)))"

subsection \<open>\<^verbatim>\<open>pixel_embed\<close>\<close>

definition pixel_embed ::
  "('t, 'w) framework \<Rightarrow> 'w pixel_embed_weights \<Rightarrow> 't \<Rightarrow> int \<times> int \<Rightarrow> int \<times> int \<Rightarrow> int \<Rightarrow> int
     \<Rightarrow> error + ('t \<times> int \<times> int list)" where
  "pixel_embed fw w x image_sz patch_sz in_dim stride =
     (case tensor_shape fw x of
        [_, channel, height, width] \<Rightarrow>
          bindR (py_floordiv (fst image_sz) (fst patch_sz)) (\<lambda>n0.
          bindR (py_floordiv (snd image_sz) (snd patch_sz)) (\<lambda>n1.
          let num_patches = n0 * n1 in
          bindR (math_ceil_truediv (fst patch_sz) stride) (\<lambda>i0.
          bindR (math_ceil_truediv (snd patch_sz) stride) (\<lambda>i1.
          let inner_patch_size = [i0, i1] in
          bindR (call_layer (layers_Conv2D fw in_dim 7 stride SAME (w_conv w)) x) (\<lambda>x.
          bindR (tf_image_extract_patches fw x [1, i0, i1, 1] [1, i0, i1, 1] [1, 1, 1, 1] VALID)
            (\<lambda>x.
          bindR (tf_reshape fw x [Some (- 1), Some (i0 * i1), Some in_dim]) (\<lambda>x.
          bindR (PatchEncoder_init fw (w_pixel_encoder w) (i0 * i1) in_dim) (\<lambda>encoder.
          bindR (PatchEncoder_call fw encoder x) (\<lambda>x.
          Inr (x, num_patches, inner_patch_size))))))))))
      | _ \<Rightarrow> Inl ValueError)"

subsection \<open>\<^verbatim>\<open>patch_embed\<close>\<close>

text \<open>The dropout rate is the module-level \<^verbatim>\<open>projection_dropout\<close>, not an argument.\<close>

definition patch_embed ::
  "('t, 'w) framework \<Rightarrow> 'w patch_embed_weights \<Rightarrow> 't \<Rightarrow> int \<Rightarrow> int \<Rightarrow> int \<Rightarrow> int \<Rightarrow> error + 't" where
  "patch_embed fw w pixel_embedding num_patches outer_dim inner_dim num_pixels =
     bindR (tf_reshape fw pixel_embedding
              [Some (- 1), Some num_patches, Some (inner_dim * num_pixels)]) (\<lambda>patch_embedding.
     bindR (call_layer (layers_LayerNormalization fw (1 / 100000) (w_norm1 w)) patch_embedding)
       (\<lambda>patch_embedding.
     bindR (call_layer (layers_Dense fw outer_dim Linear (w_dense w)) patch_embedding)
       (\<lambda>patch_embedding.
     bindR (call_layer (layers_LayerNormalization fw (1 / 100000) (w_norm2 w)) patch_embedding)
       (\<lambda>patch_embedding.
     bindR (PatchEncoder_init fw (w_patch_encoder w) num_patches outer_dim) (\<lambda>encoder.
     bindR (PatchEncoder_call fw encoder patch_embedding) (\<lambda>patch_embedding.
     bindR (call_layer (layers_Dropout fw projection_dropout (w_dropout w)) patch_embedding)
       (\<lambda>patch_embedding.
     Inr patch_embedding)))))))"

subsection \<open>\<^verbatim>\<open>mlp\<close>\<close>

definition mlp ::
  "('t, 'w) framework \<Rightarrow> 'w mlp_weights \<Rightarrow> 't \<Rightarrow> int \<Rightarrow> int \<Rightarrow> real \<Rightarrow> error + 't" where
  "mlp fw w x hidden_dim output_dim drop_rate =
     bindR (call_layer (layers_Dense fw hidden_dim Gelu (w_dense1 w)) x) (\<lambda>x.
     bindR (call_layer (layers_Dropout fw drop_rate (w_drop1 w)) x) (\<lambda>x.
     bindR (call_layer (layers_Dense fw output_dim Linear (w_dense2 w)) x) (\<lambda>x.
     bindR (call_layer (layers_Dropout fw drop_rate (w_drop2 w)) x) (\<lambda>x.
     Inr x))))"

text \<open>The default of \<^verbatim>\<open>mlp\<close>'s \<^verbatim>\<open>drop_rate\<close> argument.\<close>

definition mlp_default_drop_rate :: real where
  "mlp_default_drop_rate = 2 / 10"

subsection \<open>\<^verbatim>\<open>transformer_in_transformer_block\<close>\<close>

definition transformer_in_transformer_block ::
  "('t, 'w) framework \<Rightarrow> 'w block_weights \<Rightarrow> 't \<Rightarrow> 't \<Rightarrow> int \<Rightarrow> int \<Rightarrow> int \<Rightarrow> int \<Rightarrow> int \<Rightarrow> int
     \<Rightarrow> real \<Rightarrow> real \<Rightarrow> error + ('t \<times> 't)" where
  "transformer_in_transformer_block fw w pixel_embedding patch_embedding out_embedding_dim
       in_embedding_dim num_pixels out_num_heads in_num_heads mlp_rat attention_drop
       projection_drop =
     (let residual_in_1 = pixel_embedding in
      bindR (call_layer (layers_LayerNormalization fw (1 / 100000) (w_in_norm1 w))
               pixel_embedding) (\<lambda>pixel_embedding.
      bindR (call_layer2 (layers_MultiHeadAttention fw in_num_heads in_embedding_dim
               attention_drop (w_in_attention w)) pixel_embedding pixel_embedding)
        (\<lambda>pixel_embedding.
      bindR (layers_add fw [pixel_embedding, residual_in_1]) (\<lambda>pixel_embedding.
      let residual_in_2 = pixel_embedding in
      bindR (call_layer (layers_LayerNormalization fw (1 / 100000) (w_in_norm2 w))
               pixel_embedding) (\<lambda>pixel_embedding.
      bindR (mlp fw (w_in_mlp w) pixel_embedding (in_embedding_dim * mlp_rat)
               in_embedding_dim mlp_default_drop_rate) (\<lambda>pixel_embedding.
      bindR (layers_add fw [pixel_embedding, residual_in_2]) (\<lambda>pixel_embedding.
      (case tensor_shape fw patch_embedding of
         [_, num_patches, channel] \<Rightarrow>
           bindR (tf_reshape fw pixel_embedding
                    [Some (- 1), num_patches, Some (in_embedding_dim * num_pixels)])
             (\<lambda>fused_embedding.
           bindR (call_layer (layers_LayerNormalization fw (1 / 100000) (w_fuse_norm w))
                    fused_embedding) (\<lambda>fused_embedding.
           bindR (call_layer (layers_Dense fw out_embedding_dim Linear (w_fuse_dense w))
                    fused_embedding) (\<lambda>fused_embedding.
           bindR (layers_add fw [patch_embedding, fused_embedding]) (\<lambda>patch_embedding.
           let residual_out_1 = patch_embedding in
           bindR (call_layer (layers_LayerNormalization fw (1 / 100000) (w_out_norm1 w))
                    patch_embedding) (\<lambda>patch_embedding.
           bindR (call_layer2 (layers_MultiHeadAttention fw out_num_heads out_embedding_dim
                    attention_drop (w_out_attention w)) patch_embedding patch_embedding)
             (\<lambda>patch_embedding.
           bindR (layers_add fw [patch_embedding, residual_out_1]) (\<lambda>patch_embedding.
           let residual_out_2 = patch_embedding in
           bindR (call_layer (layers_LayerNormalization fw (1 / 100000) (w_out_norm2 w))
                    patch_embedding) (\<lambda>patch_embedding.
           bindR (mlp fw (w_out_mlp w) patch_embedding (out_embedding_dim * mlp_rat)
                    out_embedding_dim mlp_default_drop_rate) (\<lambda>patch_embedding.
           bindR (layers_add fw [patch_embedding, residual_out_2]) (\<lambda>patch_embedding.
           Inr (pixel_embedding, patch_embedding)))))))))))
       | _ \<Rightarrow> Inl ValueError))))))))"

subsection \<open>\<^verbatim>\<open>get_model\<close>\<close>

text \<open>
  \<^verbatim>\<open>for i in range(n): state = body(i, state)\<close>, stopping at the first exception.
  \<^verbatim>\<open>range(n)\<close> is empty for \<open>n \<le> 0\<close>.
\<close>

primrec for_loop :: "(nat \<Rightarrow> 's \<Rightarrow> error + 's) \<Rightarrow> nat list \<Rightarrow> 's \<Rightarrow> error + 's" where
  "for_loop body [] s = Inr s"
| "for_loop body (i # rest) s = bindR (body i s) (for_loop body rest)"

definition py_range :: "int \<Rightarrow> nat list" where
  "py_range n = [0 ..< nat n]"

text \<open>
  The block loop of \<^verbatim>\<open>get_model\<close>: iteration \<open>i\<close> constructs the layers of a new block
  (weights \<open>wb i\<close>) and threads the pair (pixel embedding, patch embedding) through it.
\<close>

definition block_loop ::
  "('t, 'w) framework \<Rightarrow> (nat \<Rightarrow> 'w block_weights) \<Rightarrow> int \<Rightarrow> int \<Rightarrow> int \<Rightarrow> int \<Rightarrow> int \<Rightarrow> int
     \<Rightarrow> int \<Rightarrow> real \<Rightarrow> real \<Rightarrow> ('t \<times> 't) \<Rightarrow> error + ('t \<times> 't)" where
  "block_loop fw wb num_layer outer_dim inner_dim num_pixels outer_heads inner_heads mlp_rat
       attention_drop projection_drop =
     for_loop (\<lambda>i (pixel_embedding, patch_embedding).
         transformer_in_transformer_block fw (wb i) pixel_embedding patch_embedding
           outer_dim inner_dim num_pixels outer_heads inner_heads mlp_rat attention_drop
           projection_drop)
       (py_range num_layer)"

text \<open>
  \<^verbatim>\<open>keras.Model(inputs=inputs, outputs=outputs)\<close> is the pair of the two symbolic
  tensors. \<^verbatim>\<open>data_augmentation\<close> reads the module-level \<^verbatim>\<open>image_size\<close>, whatever
  \<^verbatim>\<open>get_model\<close>'s own argument is.
\<close>

definition get_model ::
  "('t, 'w) framework \<Rightarrow> 'w model_weights \<Rightarrow> int \<times> int \<Rightarrow> int \<times> int \<Rightarrow> int \<Rightarrow> int \<Rightarrow> int \<Rightarrow> int
     \<Rightarrow> int \<Rightarrow> int \<Rightarrow> real \<Rightarrow> real \<Rightarrow> int \<Rightarrow> error + ('t \<times> 't)" where
  "get_model fw w image_sz patch_sz outer_dim inner_dim num_layer outer_heads inner_heads
       mlp_rat attention_drop projection_drop stride =
     bindR (layers_Input fw input_shape) (\<lambda>inputs.
     bindR (data_augmentation fw (w_augmentation w) inputs) (\<lambda>x.
     bindR (pixel_embed fw (w_pixel_embed w) x image_sz patch_sz inner_dim stride)
       (\<lambda>(pixel_embedding, num_patches, inner_patch_size).
     let num_pixels = inner_patch_size ! 0 * inner_patch_size ! 1 in
     bindR (patch_embed fw (w_patch_embed w) pixel_embedding num_patches outer_dim inner_dim
              num_pixels) (\<lambda>patch_embedding.
     bindR (block_loop fw (w_blocks w) num_layer outer_dim inner_dim num_pixels outer_heads
              inner_heads mlp_rat attention_drop projection_drop
              (pixel_embedding, patch_embedding)) (\<lambda>(pixel_embedding, patch_embedding).
     bindR (call_layer (layers_LayerNormalization fw (1 / 100000) (w_final_norm w))
              patch_embedding) (\<lambda>patch_embedding.
     bindR (call_layer (layers_GlobalAvgPool1D fw) patch_embedding) (\<lambda>x.
     bindR (call_layer (layers_Dense fw num_classes Softmax (w_head w)) x) (\<lambda>outputs.
     Inr (inputs, outputs)))))))))"

section \<open>The framework at graph-build time: symbolic tensors\<close>

text \<open>
  \<^verbatim>\<open>get_model\<close> runs on symbolic tensors: each framework call records a node of the
  layer graph and infers the static shape of its output, or raises. The instance
  \<open>keras\<close> below is this graph-building reading of the framework. Its shape rules are
  the framework's (they are not part of the notebook); they follow the documented
  behaviour of TensorFlow's static shape inference and of the Keras layers. A layer
  rejects a hyperparameter it does not accept when it is constructed or, as
  \<^verbatim>\<open>MultiHeadAttention\<close> does, when it is first called: there it builds its dropout
  layer (a rate outside \<open>[0, 1]\<close> is an error), its projection weights (a negative
  number of heads or key dimension is an error) and the scaling by
  \<open>1 / sqrt key_dim\<close> (a division by zero for \<open>key_dim = 0\<close>). A layer with zero units or
  zero heads is accepted.
\<close>

datatype node =
    Input_node "int list"
  | Rescaling_node real node
  | Resizing_node int int node
  | RandomFlip_node string nat node
  | RandomRotation_node real nat node
  | RandomContrast_node real nat node
  | RandomZoom_node real real nat node
  | Conv2D_node int int int padding nat node
  | extract_patches_node node "int list" "int list" "int list" padding
  | reshape_node node "int option list"
  | Dense_node int activation nat node
  | Embedding_node int int nat node
  | range_node int int
  | plus_node node node
  | LayerNormalization_node real nat node
  | Dropout_node real nat node
  | MultiHeadAttention_node int int real nat node node
  | add_node "node list"
  | GlobalAvgPool1D_node node

record KerasTensor =
  kshape :: dims
  knode :: node

text \<open>
  The product of two dimensions as the shape inference takes it: a known zero wins over
  an unknown factor.
\<close>

definition dim_multiply :: "int option \<Rightarrow> int option \<Rightarrow> int option" where
  "dim_multiply a b =
     (if a = Some 0 then a
      else if b = Some 0 then b
      else if a = Some 1 then b
      else if b = Some 1 then a
      else (case (a, b) of (Some i, Some j) \<Rightarrow> Some (i * j) | _ \<Rightarrow> None))"

text \<open>The number of elements of a shape, when the shape inference knows it.\<close>

definition num_elements :: "dims \<Rightarrow> int option" where
  "num_elements s = foldl dim_multiply (Some 1) s"

definition known_elems :: "int option list \<Rightarrow> int" where
  "known_elems s = prod_list (map (\<lambda>d. case d of None \<Rightarrow> 1 | Some n \<Rightarrow> n) s)"

definition num_unknown :: "int option list \<Rightarrow> nat" where
  "num_unknown s = length (filter (\<lambda>d. d = None) s)"

text \<open>
  \<^verbatim>\<open>tf.reshape\<close> at graph-build time. A target entry \<open>-1\<close> is an unknown output
  dimension; an entry below \<open>-1\<close> (or \<^verbatim>\<open>None\<close>) is an error. A side whose number of
  elements is known (all dimensions known, or one of them zero) counts as known. With
  more than one unknown dimension on a side nothing is checked. With both sides known
  the element counts must agree. With the input known and one unknown output dimension,
  that dimension is computed (an uneven division is an error). With one unknown input
  dimension and the output known, the known input elements must divide the output's.
  With one unknown dimension on each side nothing can be compared and the output
  dimension stays unknown.
\<close>

definition reshape_shape :: "dims \<Rightarrow> int option list \<Rightarrow> error + dims" where
  "reshape_shape s target =
     (if list_ex (\<lambda>d. case d of None \<Rightarrow> True | Some n \<Rightarrow> n < - 1) target
      then Inl FrameworkShapeError
      else
        (let out = map (\<lambda>d. if d = Some (- 1) then None else d) target;
             out_known = (num_elements out \<noteq> None);
             in_known = (num_elements s \<noteq> None);
             known_out = (case num_elements out of Some n \<Rightarrow> n | None \<Rightarrow> known_elems out);
             known_in = (case num_elements s of Some n \<Rightarrow> n | None \<Rightarrow> known_elems s)
         in if (\<not> out_known \<and> 1 < num_unknown out) \<or> (\<not> in_known \<and> 1 < num_unknown s)
            then Inr out
            else if in_known \<and> out_known then
              (if known_in = known_out then Inr out else Inl FrameworkShapeError)
            else if in_known \<and> 0 < known_out then
              (if known_in mod known_out = 0
               then Inr (map (\<lambda>d. if d = None then Some (known_in div known_out) else d) out)
               else Inl FrameworkShapeError)
            else if out_known \<and> known_in \<noteq> 0 then
              (if known_out mod known_in = 0 then Inr out else Inl FrameworkShapeError)
            else Inr out))"

text \<open>Output size of a convolution window along one axis.\<close>

definition conv_output_length :: "int \<Rightarrow> int \<Rightarrow> int \<Rightarrow> padding \<Rightarrow> error + int" where
  "conv_output_length n k s pad =
     (case pad of
        SAME \<Rightarrow> Inr ((n + s - 1) div s)
      | VALID \<Rightarrow> if n < k then Inl FrameworkShapeError else Inr ((n - k) div s + 1))"

definition conv_output_dim :: "int option \<Rightarrow> int \<Rightarrow> int \<Rightarrow> padding \<Rightarrow> error + int option" where
  "conv_output_dim d k s pad =
     (case d of
        None \<Rightarrow> Inr None
      | Some n \<Rightarrow> bindR (conv_output_length n k s pad) (\<lambda>m. Inr (Some m)))"

definition Conv2D_shape :: "int \<Rightarrow> int \<Rightarrow> int \<Rightarrow> padding \<Rightarrow> dims \<Rightarrow> error + dims" where
  "Conv2D_shape filters kernel_size strides pad s =
     (case s of
        [b, h, w, Some c] \<Rightarrow>
          bindR (conv_output_dim h kernel_size strides pad) (\<lambda>oh.
          bindR (conv_output_dim w kernel_size strides pad) (\<lambda>ow.
          Inr [b, oh, ow, Some filters]))
      | _ \<Rightarrow> Inl FrameworkShapeError)"

text \<open>
  Output size of a patch window along one axis (\<^verbatim>\<open>tf.image.extract_patches\<close>): the
  quotient truncates towards zero, and a negative size is an error.
\<close>

definition windowed_output_size :: "int \<Rightarrow> int \<Rightarrow> int \<Rightarrow> padding \<Rightarrow> error + int" where
  "windowed_output_size n k s pad =
     (case pad of
        SAME \<Rightarrow> Inr ((n + s - 1) div s)
      | VALID \<Rightarrow>
          (let m = n - k + s;
               q = (if 0 \<le> m then m div s else - ((- m) div s))
           in if q < 0 then Inl FrameworkShapeError else Inr q))"

definition extract_patches_shape ::
  "dims \<Rightarrow> int list \<Rightarrow> int list \<Rightarrow> int list \<Rightarrow> padding \<Rightarrow> error + dims" where
  "extract_patches_shape s sizes strides rates pad =
     (case s of
        [b, h, w, c] \<Rightarrow>
          (case sizes of
             [s0, kr, kc, s3] \<Rightarrow>
               (case strides of
                  [t0, sr, sc, t3] \<Rightarrow>
                    (case rates of
                       [r0, rr, rc, r3] \<Rightarrow>
                         if s0 \<noteq> 1 \<or> s3 \<noteq> 1 \<or> t0 \<noteq> 1 \<or> t3 \<noteq> 1 \<or> r0 \<noteq> 1 \<or> r3 \<noteq> 1
                            \<or> kr \<le> 0 \<or> kc \<le> 0 \<or> sr \<le> 0 \<or> sc \<le> 0 \<or> rr \<le> 0 \<or> rc \<le> 0
                         then Inl FrameworkArgError
                         else
                           (let depth = map_option (\<lambda>n. kr * kc * n) c in
                            case (h, w) of
                              (Some hn, Some wn) \<Rightarrow>
                                bindR (windowed_output_size hn (kr + (kr - 1) * (rr - 1)) sr pad)
                                  (\<lambda>oh.
                                bindR (windowed_output_size wn (kc + (kc - 1) * (rc - 1)) sc pad)
                                  (\<lambda>ow.
                                Inr [b, Some oh, Some ow, depth]))
                            | _ \<Rightarrow> Inr [b, None, None, depth])
                     | _ \<Rightarrow> Inl FrameworkArgError)
                | _ \<Rightarrow> Inl FrameworkArgError)
           | _ \<Rightarrow> Inl FrameworkArgError)
      | _ \<Rightarrow> Inl FrameworkShapeError)"

text \<open>A layer acting on the last axis (\<^verbatim>\<open>Dense\<close>): the last dimension must be known.\<close>

definition Dense_shape :: "int \<Rightarrow> dims \<Rightarrow> error + dims" where
  "Dense_shape units s =
     (if length s < 2 \<or> last s = None then Inl FrameworkShapeError
      else Inr (butlast s @ [Some units]))"

definition LayerNormalization_shape :: "dims \<Rightarrow> error + dims" where
  "LayerNormalization_shape s =
     (if s = [] \<or> last s = None then Inl FrameworkShapeError else Inr s)"

text \<open>Applies \<open>f\<close> to the dimensions of two shapes of equal rank, pairwise.\<close>

fun zip_dims ::
  "(int option \<Rightarrow> int option \<Rightarrow> error + int option) \<Rightarrow> dims \<Rightarrow> dims \<Rightarrow> error + dims" where
  "zip_dims f (a # s1) (b # s2) =
     bindR (f a b) (\<lambda>d. bindR (zip_dims f s1 s2) (\<lambda>rest. Inr (d # rest)))"
| "zip_dims f _ _ = Inr []"

text \<open>Broadcasting of the elementwise operators of the framework (\<^verbatim>\<open>a + b\<close>).\<close>

definition broadcast_dim :: "int option \<Rightarrow> int option \<Rightarrow> error + int option" where
  "broadcast_dim a b =
     (case (a, b) of
        (Some i, Some j) \<Rightarrow>
          if i = j then Inr (Some i)
          else if i = 1 then Inr (Some j)
          else if j = 1 then Inr (Some i)
          else Inl FrameworkShapeError
      | (Some i, None) \<Rightarrow> if 1 < i then Inr (Some i) else Inr None
      | (None, Some j) \<Rightarrow> if 1 < j then Inr (Some j) else Inr None
      | (None, None) \<Rightarrow> Inr None)"

definition broadcast_shape :: "dims \<Rightarrow> dims \<Rightarrow> error + dims" where
  "broadcast_shape s1 s2 =
     (let n = max (length s1) (length s2);
          pad = (\<lambda>s. replicate (n - length s) (Some 1) @ s)
      in zip_dims broadcast_dim (pad s1) (pad s2))"

text \<open>
  \<^verbatim>\<open>layers.add\<close> (the \<^verbatim>\<open>Add\<close> merge layer): at least two inputs, one common known batch
  size, the remaining dimensions compatible by the layer's own rule; inputs of lower
  rank get dimensions of size 1 inserted after the batch axis, then the inputs are
  summed with broadcasting.
\<close>

definition merge_dim :: "int option \<Rightarrow> int option \<Rightarrow> error + int option" where
  "merge_dim a b =
     (case (a, b) of
        (Some i, Some j) \<Rightarrow>
          if i = 1 then Inr (Some j)
          else if j = 1 then Inr (Some i)
          else if i \<noteq> j then Inl FrameworkShapeError
          else Inr (Some i)
      | _ \<Rightarrow> Inr None)"

definition merge_elemwise_shape :: "dims \<Rightarrow> dims \<Rightarrow> error + dims" where
  "merge_elemwise_shape shape1 shape2 =
     (let long = (if length shape1 < length shape2 then shape2 else shape1);
          short = (if length shape1 < length shape2 then shape1 else shape2);
          k = length long - length short
      in bindR (zip_dims merge_dim (drop k long) short) (\<lambda>t. Inr (take k long @ t)))"

fun fold_shapes :: "(dims \<Rightarrow> dims \<Rightarrow> error + dims) \<Rightarrow> dims \<Rightarrow> dims list \<Rightarrow> error + dims" where
  "fold_shapes f acc [] = Inr acc"
| "fold_shapes f acc (s # rest) = bindR (f acc s) (\<lambda>acc'. fold_shapes f acc' rest)"

definition add_shape :: "dims list \<Rightarrow> error + dims" where
  "add_shape shapes =
     (if length shapes < 2 then Inl FrameworkArgError
      else if list_ex (\<lambda>s. s = []) shapes then Inl FrameworkShapeError
      else if 1 < length (remdups (filter (\<lambda>d. d \<noteq> None) (map hd shapes)))
        then Inl FrameworkShapeError
      else
        bindR (fold_shapes merge_elemwise_shape (tl (hd shapes)) (map tl (tl shapes))) (\<lambda>_.
        let n = foldr max (map length shapes) 0;
            expand = (\<lambda>s. hd s # replicate (n - length s) (Some 1) @ tl s)
        in fold_shapes broadcast_shape (expand (hd shapes)) (map expand (tl shapes))))"

text \<open>
  \<^verbatim>\<open>MultiHeadAttention(query, value)\<close>: the output has the query's shape (it is
  projected back to the query's last dimension).
\<close>

definition MultiHeadAttention_shape :: "dims \<Rightarrow> dims \<Rightarrow> error + dims" where
  "MultiHeadAttention_shape q v =
     (if length q < 3 \<or> length v \<noteq> length q \<or> last q = None \<or> last v = None
         \<or> (hd q \<noteq> None \<and> hd v \<noteq> None \<and> hd q \<noteq> hd v)
      then Inl FrameworkShapeError else Inr q)"

definition GlobalAvgPool1D_shape :: "dims \<Rightarrow> error + dims" where
  "GlobalAvgPool1D_shape s =
     (case s of [b, steps, features] \<Rightarrow> Inr [b, features] | _ \<Rightarrow> Inl FrameworkShapeError)"

definition Resizing_shape :: "int \<Rightarrow> int \<Rightarrow> dims \<Rightarrow> error + dims" where
  "Resizing_shape height width s =
     (case s of
        [b, _, _, c] \<Rightarrow> Inr [b, Some height, Some width, c]
      | _ \<Rightarrow> Inl FrameworkShapeError)"

definition image_shape :: "dims \<Rightarrow> error + dims" where
  "image_shape s = (if length s = 4 then Inr s else Inl FrameworkShapeError)"

text \<open>Builds the output tensor of a node from the inferred shape.\<close>

definition ktensor :: "node \<Rightarrow> error + dims \<Rightarrow> error + KerasTensor" where
  "ktensor n r = bindR r (\<lambda>s. Inr \<lparr>kshape = s, knode = n\<rparr>)"

definition checked :: "bool \<Rightarrow> 'a \<Rightarrow> error + 'a" where
  "checked ok l = (if ok then Inr l else Inl FrameworkArgError)"

definition keras :: "(KerasTensor, nat) framework" where
  "keras = \<lparr>
     tensor_shape = kshape,
     layers_Input = (\<lambda>shape.
       if list_ex (\<lambda>n. n < 0) shape then Inl FrameworkArgError
       else Inr \<lparr>kshape = None # map Some shape, knode = Input_node shape\<rparr>),
     layers_Rescaling = (\<lambda>scale.
       Inr (\<lambda>x. ktensor (Rescaling_node scale (knode x)) (Inr (kshape x)))),
     layers_Resizing = (\<lambda>height width.
       checked (0 < height \<and> 0 < width)
         (\<lambda>x. ktensor (Resizing_node height width (knode x))
                 (Resizing_shape height width (kshape x)))),
     layers_RandomFlip = (\<lambda>mode w.
       checked (mode \<in> set [''horizontal'', ''vertical'', ''horizontal_and_vertical''])
         (\<lambda>x. ktensor (RandomFlip_node mode w (knode x)) (image_shape (kshape x)))),
     layers_RandomRotation = (\<lambda>factor w.
       checked (0 \<le> factor)
         (\<lambda>x. ktensor (RandomRotation_node factor w (knode x)) (image_shape (kshape x)))),
     layers_RandomContrast = (\<lambda>factor w.
       checked (0 \<le> factor \<and> factor \<le> 1)
         (\<lambda>x. ktensor (RandomContrast_node factor w (knode x)) (image_shape (kshape x)))),
     layers_RandomZoom = (\<lambda>height_factor width_factor w.
       checked (\<bar>height_factor\<bar> \<le> 1 \<and> \<bar>width_factor\<bar> \<le> 1)
         (\<lambda>x. ktensor (RandomZoom_node height_factor width_factor w (knode x))
                 (image_shape (kshape x)))),
     layers_Conv2D = (\<lambda>filters kernel_size strides pad w.
       checked (0 < filters \<and> 0 < kernel_size \<and> 0 < strides)
         (\<lambda>x. ktensor (Conv2D_node filters kernel_size strides pad w (knode x))
                 (Conv2D_shape filters kernel_size strides pad (kshape x)))),
     tf_image_extract_patches = (\<lambda>images sizes strides rates pad.
       ktensor (extract_patches_node (knode images) sizes strides rates pad)
         (extract_patches_shape (kshape images) sizes strides rates pad)),
     tf_reshape = (\<lambda>x target.
       ktensor (reshape_node (knode x) target) (reshape_shape (kshape x) target)),
     layers_Dense = (\<lambda>units act w.
       checked (0 \<le> units)
         (\<lambda>x. ktensor (Dense_node units act w (knode x)) (Dense_shape units (kshape x)))),
     layers_Embedding = (\<lambda>input_dim output_dim w.
       checked (0 < input_dim \<and> 0 < output_dim)
         (\<lambda>x. ktensor (Embedding_node input_dim output_dim w (knode x))
                 (Inr (kshape x @ [Some output_dim])))),
     tf_range = (\<lambda>start limit.
       Inr \<lparr>kshape = [Some (max 0 (limit - start))], knode = range_node start limit\<rparr>),
     tf_add = (\<lambda>a b.
       ktensor (plus_node (knode a) (knode b)) (broadcast_shape (kshape a) (kshape b))),
     layers_LayerNormalization = (\<lambda>epsilon w.
       Inr (\<lambda>x. ktensor (LayerNormalization_node epsilon w (knode x))
                   (LayerNormalization_shape (kshape x)))),
     layers_Dropout = (\<lambda>rate w.
       checked (0 \<le> rate \<and> rate \<le> 1)
         (\<lambda>x. ktensor (Dropout_node rate w (knode x)) (Inr (kshape x)))),
     layers_MultiHeadAttention = (\<lambda>num_heads key_dim dropout w.
       Inr (\<lambda>q v.
         if \<not> (0 \<le> dropout \<and> dropout \<le> 1) \<or> num_heads < 0 \<or> key_dim < 0
         then Inl FrameworkArgError
         else if key_dim = 0 then Inl ZeroDivisionError
         else ktensor (MultiHeadAttention_node num_heads key_dim dropout w (knode q) (knode v))
                (MultiHeadAttention_shape (kshape q) (kshape v)))),
     layers_add = (\<lambda>inputs.
       ktensor (add_node (map knode inputs)) (add_shape (map kshape inputs))),
     layers_GlobalAvgPool1D =
       Inr (\<lambda>x. ktensor (GlobalAvgPool1D_node (knode x)) (GlobalAvgPool1D_shape (kshape x)))
   \<rparr>"

text \<open>Weights of the symbolic model: the number of each constructed layer.\<close>

definition encoder_w0 :: "nat \<Rightarrow> nat PatchEncoder_weights" where
  "encoder_w0 k = \<lparr>w_projection = k, w_position_embedding = k + 1\<rparr>"

definition mlp_w0 :: "nat \<Rightarrow> nat mlp_weights" where
  "mlp_w0 k = \<lparr>w_dense1 = k, w_drop1 = k + 1, w_dense2 = k + 2, w_drop2 = k + 3\<rparr>"

definition block_w0 :: "nat \<Rightarrow> nat block_weights" where
  "block_w0 i = \<lparr>w_in_norm1 = 20 * i + 20, w_in_attention = 20 * i + 21,
     w_in_norm2 = 20 * i + 22, w_in_mlp = mlp_w0 (20 * i + 23),
     w_fuse_norm = 20 * i + 27, w_fuse_dense = 20 * i + 28, w_out_norm1 = 20 * i + 29,
     w_out_attention = 20 * i + 30, w_out_norm2 = 20 * i + 31,
     w_out_mlp = mlp_w0 (20 * i + 32)\<rparr>"

definition pixel_w0 :: "nat pixel_embed_weights" where
  "pixel_w0 = \<lparr>w_conv = 4, w_pixel_encoder = encoder_w0 5\<rparr>"

definition patch_w0 :: "nat patch_embed_weights" where
  "patch_w0 = \<lparr>w_norm1 = 7, w_dense = 8, w_norm2 = 9, w_patch_encoder = encoder_w0 10,
     w_dropout = 12\<rparr>"

definition model_w0 :: "nat model_weights" where
  "model_w0 = \<lparr>w_augmentation = \<lparr>w_flip = 0, w_rotation = 1, w_contrast = 2, w_zoom = 3\<rparr>,
     w_pixel_embed = pixel_w0, w_patch_embed = patch_w0, w_blocks = block_w0,
     w_final_norm = 13, w_head = 14\<rparr>"

text \<open>A symbolic tensor of a given static shape (the output of an input layer).\<close>

definition placeholder :: "dims \<Rightarrow> KerasTensor" where
  "placeholder s = \<lparr>kshape = s, knode = Input_node []\<rparr>"

definition is_error :: "error + 'a \<Rightarrow> bool" where
  "is_error r = (case r of Inl _ \<Rightarrow> True | Inr _ \<Rightarrow> False)"

section \<open>Notions of the specification\<close>

text \<open>
  The inner transformer step of a block (the statements under
  \<^verbatim>\<open># inner transformer block\<close>): normalise, self-attention, residual, normalise,
  feed-forward, residual.
\<close>

definition inner_transformer_step ::
  "('t, 'w) framework \<Rightarrow> 'w block_weights \<Rightarrow> 't \<Rightarrow> int \<Rightarrow> int \<Rightarrow> int \<Rightarrow> real \<Rightarrow> error + 't" where
  "inner_transformer_step fw w pixel_embedding in_embedding_dim in_num_heads mlp_rat
       attention_drop =
     (let residual_in_1 = pixel_embedding in
      bindR (call_layer (layers_LayerNormalization fw (1 / 100000) (w_in_norm1 w))
               pixel_embedding) (\<lambda>pixel_embedding.
      bindR (call_layer2 (layers_MultiHeadAttention fw in_num_heads in_embedding_dim
               attention_drop (w_in_attention w)) pixel_embedding pixel_embedding)
        (\<lambda>pixel_embedding.
      bindR (layers_add fw [pixel_embedding, residual_in_1]) (\<lambda>pixel_embedding.
      let residual_in_2 = pixel_embedding in
      bindR (call_layer (layers_LayerNormalization fw (1 / 100000) (w_in_norm2 w))
               pixel_embedding) (\<lambda>pixel_embedding.
      bindR (mlp fw (w_in_mlp w) pixel_embedding (in_embedding_dim * mlp_rat)
               in_embedding_dim mlp_default_drop_rate) (\<lambda>pixel_embedding.
      layers_add fw [pixel_embedding, residual_in_2]))))))"

text \<open>
  The fusion and the outer transformer step of a block (the statements under
  \<^verbatim>\<open># outer transformer block\<close>), reading the refined pixel embedding.
\<close>

definition outer_transformer_step ::
  "('t, 'w) framework \<Rightarrow> 'w block_weights \<Rightarrow> 't \<Rightarrow> 't \<Rightarrow> int \<Rightarrow> int \<Rightarrow> int \<Rightarrow> int \<Rightarrow> int \<Rightarrow> real
     \<Rightarrow> error + 't" where
  "outer_transformer_step fw w pixel_embedding patch_embedding out_embedding_dim
       in_embedding_dim num_pixels out_num_heads mlp_rat attention_drop =
     (case tensor_shape fw patch_embedding of
        [_, num_patches, channel] \<Rightarrow>
          bindR (tf_reshape fw pixel_embedding
                   [Some (- 1), num_patches, Some (in_embedding_dim * num_pixels)])
            (\<lambda>fused_embedding.
          bindR (call_layer (layers_LayerNormalization fw (1 / 100000) (w_fuse_norm w))
                   fused_embedding) (\<lambda>fused_embedding.
          bindR (call_layer (layers_Dense fw out_embedding_dim Linear (w_fuse_dense w))
                   fused_embedding) (\<lambda>fused_embedding.
          bindR (layers_add fw [patch_embedding, fused_embedding]) (\<lambda>patch_embedding.
          let residual_out_1 = patch_embedding in
          bindR (call_layer (layers_LayerNormalization fw (1 / 100000) (w_out_norm1 w))
                   patch_embedding) (\<lambda>patch_embedding.
          bindR (call_layer2 (layers_MultiHeadAttention fw out_num_heads out_embedding_dim
                   attention_drop (w_out_attention w)) patch_embedding patch_embedding)
            (\<lambda>patch_embedding.
          bindR (layers_add fw [patch_embedding, residual_out_1]) (\<lambda>patch_embedding.
          let residual_out_2 = patch_embedding in
          bindR (call_layer (layers_LayerNormalization fw (1 / 100000) (w_out_norm2 w))
                   patch_embedding) (\<lambda>patch_embedding.
          bindR (mlp fw (w_out_mlp w) patch_embedding (out_embedding_dim * mlp_rat)
                   out_embedding_dim mlp_default_drop_rate) (\<lambda>patch_embedding.
          layers_add fw [patch_embedding, residual_out_2])))))))))
      | _ \<Rightarrow> Inl ValueError)"

text \<open>Applying a step \<open>k\<close> times in sequence: step \<open>0\<close> first, step \<open>k - 1\<close> last.\<close>

primrec iterate_steps :: "(nat \<Rightarrow> 's \<Rightarrow> error + 's) \<Rightarrow> nat \<Rightarrow> 's \<Rightarrow> error + 's" where
  "iterate_steps step 0 s = Inr s"
| "iterate_steps step (Suc k) s = bindR (iterate_steps step k s) (step k)"

text \<open>
  The patch embedder as the specification words it: fold, normalise, project,
  normalise again, add the learned position embedding to that result, dropout.
\<close>

definition patch_embed_as_specified ::
  "('t, 'w) framework \<Rightarrow> 'w patch_embed_weights \<Rightarrow> 't \<Rightarrow> int \<Rightarrow> int \<Rightarrow> int \<Rightarrow> int \<Rightarrow> error + 't" where
  "patch_embed_as_specified fw w pixel_embedding num_patches outer_dim inner_dim num_pixels =
     bindR (tf_reshape fw pixel_embedding
              [Some (- 1), Some num_patches, Some (inner_dim * num_pixels)]) (\<lambda>folded.
     bindR (call_layer (layers_LayerNormalization fw (1 / 100000) (w_norm1 w)) folded)
       (\<lambda>normed.
     bindR (call_layer (layers_Dense fw outer_dim Linear (w_dense w)) normed) (\<lambda>projected.
     bindR (call_layer (layers_LayerNormalization fw (1 / 100000) (w_norm2 w)) projected)
       (\<lambda>normed2.
     bindR (tf_range fw 0 num_patches) (\<lambda>positions.
     bindR (call_layer (layers_Embedding fw num_patches outer_dim
              (w_position_embedding (w_patch_encoder w))) positions) (\<lambda>embedded.
     bindR (tf_add fw normed2 embedded) (\<lambda>encoded.
     call_layer (layers_Dropout fw projection_dropout (w_dropout w)) encoded)))))))"

text \<open>
  The patch embedder as the code runs it: the \<^verbatim>\<open>PatchEncoder\<close> constructs a second
  linear projection and the position table, projects the normalised tensor once more
  and adds the position embedding to that projection.
\<close>

definition patch_embed_steps ::
  "('t, 'w) framework \<Rightarrow> 'w patch_embed_weights \<Rightarrow> 't \<Rightarrow> int \<Rightarrow> int \<Rightarrow> int \<Rightarrow> int \<Rightarrow> error + 't" where
  "patch_embed_steps fw w pixel_embedding num_patches outer_dim inner_dim num_pixels =
     bindR (tf_reshape fw pixel_embedding
              [Some (- 1), Some num_patches, Some (inner_dim * num_pixels)]) (\<lambda>folded.
     bindR (call_layer (layers_LayerNormalization fw (1 / 100000) (w_norm1 w)) folded)
       (\<lambda>normed.
     bindR (call_layer (layers_Dense fw outer_dim Linear (w_dense w)) normed) (\<lambda>projected.
     bindR (call_layer (layers_LayerNormalization fw (1 / 100000) (w_norm2 w)) projected)
       (\<lambda>normed2.
     bindR (layers_Dense fw outer_dim Linear (w_projection (w_patch_encoder w)))
       (\<lambda>projection.
     bindR (layers_Embedding fw num_patches outer_dim
              (w_position_embedding (w_patch_encoder w))) (\<lambda>position_embedding.
     bindR (tf_range fw 0 num_patches) (\<lambda>positions.
     bindR (projection normed2) (\<lambda>projected2.
     bindR (position_embedding positions) (\<lambda>embedded.
     bindR (tf_add fw projected2 embedded) (\<lambda>encoded.
     call_layer (layers_Dropout fw projection_dropout (w_dropout w)) encoded))))))))))"

text \<open>
  Locality along the leading axis. \<open>sl i x\<close> is the entry of tensor \<open>x\<close> at index \<open>i\<close> of
  its leading axis (for a pixel embedding: the pixel tokens of one patch of one image).
  A layer is local when entry \<open>i\<close> of its output is determined by entry \<open>i\<close> of its
  input(s).
\<close>

definition local_layer :: "(nat \<Rightarrow> 't \<Rightarrow> 'r) \<Rightarrow> 't layer \<Rightarrow> bool" where
  "local_layer sl l =
     (\<forall>i x y x' y'. l x = Inr x' \<and> l y = Inr y' \<and> sl i x = sl i y \<longrightarrow> sl i x' = sl i y')"

definition local_layer2 :: "(nat \<Rightarrow> 't \<Rightarrow> 'r) \<Rightarrow> ('t \<Rightarrow> 't layer) \<Rightarrow> bool" where
  "local_layer2 sl l =
     (\<forall>i q v q' v' r r'. l q v = Inr r \<and> l q' v' = Inr r' \<and> sl i q = sl i q' \<and> sl i v = sl i v'
        \<longrightarrow> sl i r = sl i r')"

definition local_merge :: "(nat \<Rightarrow> 't \<Rightarrow> 'r) \<Rightarrow> ('t list \<Rightarrow> error + 't) \<Rightarrow> bool" where
  "local_merge sl f =
     (\<forall>i xs ys r r'. f xs = Inr r \<and> f ys = Inr r' \<and> map (sl i) xs = map (sl i) ys
        \<longrightarrow> sl i r = sl i r')"

text \<open>
  The framework's layers used by the inner transformer step treat the leading axis as
  the batch axis: normalisation, attention, dense, dropout and the residual addition
  all act on each leading index on its own.
\<close>

definition leading_axis_is_batch :: "('t, 'w) framework \<Rightarrow> (nat \<Rightarrow> 't \<Rightarrow> 'r) \<Rightarrow> bool" where
  "leading_axis_is_batch fw sl =
     ((\<forall>eps w l. layers_LayerNormalization fw eps w = Inr l \<longrightarrow> local_layer sl l)
      \<and> (\<forall>h k d w l. layers_MultiHeadAttention fw h k d w = Inr l \<longrightarrow> local_layer2 sl l)
      \<and> (\<forall>u a w l. layers_Dense fw u a w = Inr l \<longrightarrow> local_layer sl l)
      \<and> (\<forall>r w l. layers_Dropout fw r w = Inr l \<longrightarrow> local_layer sl l)
      \<and> local_merge sl (layers_add fw))"

text \<open>
  Error transparency. \<open>same_or_fails e r r'\<close>: the second run returned what the first
  did, or raised \<open>e\<close>. \<open>fails_more e fw fw'\<close>: the framework \<open>fw'\<close> behaves as \<open>fw\<close>, except
  that any of its calls may raise \<open>e\<close> instead.
\<close>

definition same_or_fails :: "error \<Rightarrow> error + 'a \<Rightarrow> error + 'a \<Rightarrow> bool" where
  "same_or_fails e r r' = (r' = r \<or> r' = Inl e)"

definition layer_same_or_fails ::
  "error \<Rightarrow> error + 't layer \<Rightarrow> error + 't layer \<Rightarrow> bool" where
  "layer_same_or_fails e c c' =
     (c' = Inl e \<or>
      (case c of
         Inl a \<Rightarrow> c' = Inl a
       | Inr l \<Rightarrow> (case c' of Inl _ \<Rightarrow> False | Inr l' \<Rightarrow> \<forall>x. same_or_fails e (l x) (l' x))))"

definition layer2_same_or_fails ::
  "error \<Rightarrow> error + ('t \<Rightarrow> 't layer) \<Rightarrow> error + ('t \<Rightarrow> 't layer) \<Rightarrow> bool" where
  "layer2_same_or_fails e c c' =
     (c' = Inl e \<or>
      (case c of
         Inl a \<Rightarrow> c' = Inl a
       | Inr l \<Rightarrow>
           (case c' of Inl _ \<Rightarrow> False | Inr l' \<Rightarrow> \<forall>q v. same_or_fails e (l q v) (l' q v))))"

definition fails_more :: "error \<Rightarrow> ('t, 'w) framework \<Rightarrow> ('t, 'w) framework \<Rightarrow> bool" where
  "fails_more e fw fw' =
     (tensor_shape fw' = tensor_shape fw
      \<and> (\<forall>s. same_or_fails e (layers_Input fw s) (layers_Input fw' s))
      \<and> (\<forall>a. layer_same_or_fails e (layers_Rescaling fw a) (layers_Rescaling fw' a))
      \<and> (\<forall>a b. layer_same_or_fails e (layers_Resizing fw a b) (layers_Resizing fw' a b))
      \<and> (\<forall>a w. layer_same_or_fails e (layers_RandomFlip fw a w) (layers_RandomFlip fw' a w))
      \<and> (\<forall>a w. layer_same_or_fails e (layers_RandomRotation fw a w)
                  (layers_RandomRotation fw' a w))
      \<and> (\<forall>a w. layer_same_or_fails e (layers_RandomContrast fw a w)
                  (layers_RandomContrast fw' a w))
      \<and> (\<forall>a b w. layer_same_or_fails e (layers_RandomZoom fw a b w)
                    (layers_RandomZoom fw' a b w))
      \<and> (\<forall>a b c d w. layer_same_or_fails e (layers_Conv2D fw a b c d w)
                        (layers_Conv2D fw' a b c d w))
      \<and> (\<forall>x a b c d. same_or_fails e (tf_image_extract_patches fw x a b c d)
                        (tf_image_extract_patches fw' x a b c d))
      \<and> (\<forall>x t. same_or_fails e (tf_reshape fw x t) (tf_reshape fw' x t))
      \<and> (\<forall>a b w. layer_same_or_fails e (layers_Dense fw a b w) (layers_Dense fw' a b w))
      \<and> (\<forall>a b w. layer_same_or_fails e (layers_Embedding fw a b w)
                    (layers_Embedding fw' a b w))
      \<and> (\<forall>a b. same_or_fails e (tf_range fw a b) (tf_range fw' a b))
      \<and> (\<forall>x y. same_or_fails e (tf_add fw x y) (tf_add fw' x y))
      \<and> (\<forall>a w. layer_same_or_fails e (layers_LayerNormalization fw a w)
                  (layers_LayerNormalization fw' a w))
      \<and> (\<forall>a w. layer_same_or_fails e (layers_Dropout fw a w) (layers_Dropout fw' a w))
      \<and> (\<forall>a b c w. layer2_same_or_fails e (layers_MultiHeadAttention fw a b c w)
                      (layers_MultiHeadAttention fw' a b c w))
      \<and> (\<forall>xs. same_or_fails e (layers_add fw xs) (layers_add fw' xs))
      \<and> layer_same_or_fails e (layers_GlobalAvgPool1D fw) (layers_GlobalAvgPool1D fw'))"

text \<open>The graph-building framework, with a \<^verbatim>\<open>tf.reshape\<close> that always raises.\<close>

definition keras_reshape_raises :: "(KerasTensor, nat) framework" where
  "keras_reshape_raises = keras\<lparr>tf_reshape := (\<lambda>x target. Inl FrameworkShapeError)\<rparr>"

section \<open>A small framework of integer tensors of rank 3\<close>

text \<open>
  A tensor is a list (leading axis) of lists (tokens) of integer vectors. The layers
  below are the ones a TNT block calls; they act on each leading index on its own, the
  attention mixes the tokens of one leading index. The other framework functions are
  not provided.
\<close>

type_synonym itensor = "int list list list"

definition chunks :: "nat \<Rightarrow> 'a list \<Rightarrow> 'a list list" where
  "chunks n xs = map (\<lambda>i. take n (drop (i * n) xs)) [0 ..< length xs div n]"

definition itensor_shape :: "itensor \<Rightarrow> dims" where
  "itensor_shape t =
     [Some (int (length t)),
      (case t of [] \<Rightarrow> None | r # _ \<Rightarrow> Some (int (length r))),
      (case t of [] \<Rightarrow> None | r # _ \<Rightarrow> (case r of [] \<Rightarrow> None | k # _ \<Rightarrow> Some (int (length k))))]"

definition itensor_reshape :: "itensor \<Rightarrow> int option list \<Rightarrow> error + itensor" where
  "itensor_reshape t target =
     (case target of
        [Some m, Some a, Some c] \<Rightarrow>
          (let flat = concat (concat t) in
           if m = - 1 \<and> 0 < a \<and> 0 < c \<and> int (length flat) mod (a * c) = 0
           then Inr (chunks (nat a) (chunks (nat c) flat))
           else Inl FrameworkShapeError)
      | _ \<Rightarrow> Inl FrameworkShapeError)"

definition itensor_add :: "itensor list \<Rightarrow> error + itensor" where
  "itensor_add ts =
     (case ts of
        [a, b] \<Rightarrow>
          if map (map length) a = map (map length) b
          then Inr (map2 (map2 (map2 (+))) a b)
          else Inl FrameworkShapeError
      | _ \<Rightarrow> Inl FrameworkArgError)"

definition itensor_attention :: "int \<Rightarrow> itensor \<Rightarrow> itensor \<Rightarrow> error + itensor" where
  "itensor_attention w q v =
     (if length q = length v
      then Inr (map2 (\<lambda>rq rv. map (map (\<lambda>c. c + w * sum_list (concat rv))) rq) q v)
      else Inl FrameworkShapeError)"

definition itensors :: "(itensor, int) framework" where
  "itensors = \<lparr>
     tensor_shape = itensor_shape,
     layers_Input = (\<lambda>shape. Inl FrameworkArgError),
     layers_Rescaling = (\<lambda>scale. Inl FrameworkArgError),
     layers_Resizing = (\<lambda>height width. Inl FrameworkArgError),
     layers_RandomFlip = (\<lambda>mode w. Inl FrameworkArgError),
     layers_RandomRotation = (\<lambda>factor w. Inl FrameworkArgError),
     layers_RandomContrast = (\<lambda>factor w. Inl FrameworkArgError),
     layers_RandomZoom = (\<lambda>height_factor width_factor w. Inl FrameworkArgError),
     layers_Conv2D = (\<lambda>filters kernel_size strides pad w. Inl FrameworkArgError),
     tf_image_extract_patches = (\<lambda>images sizes strides rates pad. Inl FrameworkArgError),
     tf_reshape = itensor_reshape,
     layers_Dense = (\<lambda>units act w.
       checked (0 < units)
         (\<lambda>x. Inr (map (map (\<lambda>k. replicate (nat units) (w + sum_list k))) x))),
     layers_Embedding = (\<lambda>input_dim output_dim w. Inl FrameworkArgError),
     tf_range = (\<lambda>start limit. Inl FrameworkArgError),
     tf_add = (\<lambda>a b. Inl FrameworkArgError),
     layers_LayerNormalization = (\<lambda>epsilon w.
       Inr (\<lambda>x. Inr (map (map (\<lambda>k. map (\<lambda>c. w * c - sum_list k) k)) x))),
     layers_Dropout = (\<lambda>rate w. Inr (\<lambda>x. Inr x)),
     layers_MultiHeadAttention = (\<lambda>num_heads key_dim dropout w.
       checked (0 < num_heads \<and> 0 < key_dim) (itensor_attention w)),
     layers_add = itensor_add,
     layers_GlobalAvgPool1D = Inl FrameworkArgError
   \<rparr>"

text \<open>The entry of an integer tensor at one leading index.\<close>

definition itensor_slice :: "nat \<Rightarrow> itensor \<Rightarrow> int list list option" where
  "itensor_slice i t = (if i < length t then Some (t ! i) else None)"

definition iblock_w :: "int block_weights" where
  "iblock_w = \<lparr>w_in_norm1 = 2, w_in_attention = 1, w_in_norm2 = 3,
     w_in_mlp = \<lparr>w_dense1 = 1, w_drop1 = 0, w_dense2 = 2, w_drop2 = 0\<rparr>,
     w_fuse_norm = 1, w_fuse_dense = 1, w_out_norm1 = 2, w_out_attention = 3,
     w_out_norm2 = 1, w_out_mlp = \<lparr>w_dense1 = 2, w_drop1 = 0, w_dense2 = 1, w_drop2 = 0\<rparr>\<rparr>"

section \<open>Properties\<close>

subsection \<open>The error monad\<close>

lemma bindR_Inl [simp]: "bindR (Inl e) k = Inl e"
  by (simp add: bindR_def)

lemma bindR_Inr [simp]: "bindR (Inr a) k = k a"
  by (simp add: bindR_def)

lemma bindR_assoc: "bindR (bindR m f) g = bindR m (\<lambda>x. bindR (f x) g)"
  by (cases m) simp_all

lemma bindR_Inr_right: "bindR m Inr = m"
  by (cases m) simp_all

lemma bindR_cong_right: "(\<And>x. f x = g x) \<Longrightarrow> bindR m f = bindR m g"
  by (cases m) simp_all

lemma bindR_InrE:
  assumes "bindR m k = Inr r"
  obtains a where "m = Inr a" and "k a = Inr r"
  using assms by (cases m) simp_all

lemma case_rank3:
  "(case xs of [a, b, c] \<Rightarrow> F a b c | _ \<Rightarrow> G) =
     (if length xs = 3 then F (xs ! 0) (xs ! 1) (xs ! 2) else G)"
  by (auto split: list.split)

lemma case_rank4:
  "(case xs of [a, b, c, d] \<Rightarrow> F a b c d | _ \<Rightarrow> G) =
     (if length xs = 4 then F (xs ! 0) (xs ! 1) (xs ! 2) (xs ! 3) else G)"
  by (auto split: list.split)

lemmas core_defs = pixel_embed_def patch_embed_def PatchEncoder_init_def PatchEncoder_call_def
  mlp_def transformer_in_transformer_block_def call_layer_def call_layer2_def py_floordiv_def
  math_ceil_truediv_def mlp_default_drop_rate_def projection_dropout_def

lemmas keras_defs = keras_def ktensor_def checked_def placeholder_def reshape_shape_def
  known_elems_def num_unknown_def num_elements_def dim_multiply_def conv_output_length_def conv_output_dim_def Conv2D_shape_def
  windowed_output_size_def extract_patches_shape_def Dense_shape_def LayerNormalization_shape_def
  broadcast_dim_def broadcast_shape_def merge_dim_def merge_elemwise_shape_def add_shape_def
  MultiHeadAttention_shape_def GlobalAvgPool1D_shape_def Resizing_shape_def image_shape_def

lemmas keras_call_defs = keras_def ktensor_def checked_def call_layer_def call_layer2_def

lemmas w0_defs = mlp_w0_def encoder_w0_def block_w0_def pixel_w0_def patch_w0_def model_w0_def

lemmas itensor_defs = itensors_def itensor_shape_def itensor_reshape_def itensor_add_def
  itensor_attention_def chunks_def checked_def iblock_w_def

lemma replicate_numeral: "replicate (numeral k) x = x # replicate (pred_numeral k) x"
  by (simp add: numeral_eq_Suc)

subsection \<open>The structure of a block\<close>

lemma block_decompose:
  "transformer_in_transformer_block fw w px pt od idim npx oh ih mr ad pd =
     bindR (inner_transformer_step fw w px idim ih mr ad) (\<lambda>px'.
     bindR (outer_transformer_step fw w px' pt od idim npx oh mr ad) (\<lambda>pt'.
     Inr (px', pt')))"
proof (cases "length (tensor_shape fw pt) = 3")
  case True
  then show ?thesis
    unfolding transformer_in_transformer_block_def inner_transformer_step_def
      outer_transformer_step_def Let_def
    by (simp add: case_rank3 bindR_assoc)
next
  case False
  then show ?thesis
    unfolding transformer_in_transformer_block_def inner_transformer_step_def
      outer_transformer_step_def Let_def
    by (simp add: case_rank3 bindR_assoc)
qed

text \<open>
  Claim C9. The output of \<^verbatim>\<open>transformer_in_transformer_block\<close> does not depend on its
  \<^verbatim>\<open>projection_dropout\<close> argument: for any two values of it, with every other argument,
  input and weight equal, and in any framework, the block returns the same result. The
  feed-forward sublayers take \<^verbatim>\<open>mlp\<close>'s default drop rate.
\<close>

theorem block_ignores_projection_dropout:
  "transformer_in_transformer_block fw w px pt od idim npx oh ih mr ad a =
   transformer_in_transformer_block fw w px pt od idim npx oh ih mr ad b"
  unfolding transformer_in_transformer_block_def by (rule refl)

lemma block_returns_inner_outer:
  assumes "transformer_in_transformer_block fw w px pt od idim npx oh ih mr ad pd = Inr (px', pt')"
  shows "inner_transformer_step fw w px idim ih mr ad = Inr px'"
    and "outer_transformer_step fw w px' pt od idim npx oh mr ad = Inr pt'"
proof -
  from assms obtain a where a: "inner_transformer_step fw w px idim ih mr ad = Inr a"
    by (cases "inner_transformer_step fw w px idim ih mr ad") (simp_all add: block_decompose)
  with assms obtain b where b: "outer_transformer_step fw w a pt od idim npx oh mr ad = Inr b"
    by (cases "outer_transformer_step fw w a pt od idim npx oh mr ad")
       (simp_all add: block_decompose)
  from assms a b have "a = px'" "b = pt'"
    by (simp_all add: block_decompose)
  with a b show "inner_transformer_step fw w px idim ih mr ad = Inr px'"
    and "outer_transformer_step fw w px' pt od idim npx oh mr ad = Inr pt'"
    by simp_all
qed

text \<open>
  Claim C10. When a block returns, the pixel embedding it returns is the result of the
  inner transformer step on the input pixel embedding; the fusion and the outer step
  read it and produce the patch embedding only.
\<close>

theorem returned_pixel_embedding_is_inner_step:
  "transformer_in_transformer_block fw w px pt od idim npx oh ih mr ad pd = Inr (px', pt')
   \<Longrightarrow> inner_transformer_step fw w px idim ih mr ad = Inr px'
       \<and> outer_transformer_step fw w px' pt od idim npx oh mr ad = Inr pt'"
  by (simp add: block_returns_inner_outer)

lemma keras_block_example:
  "\<exists>a b. transformer_in_transformer_block keras (block_w0 0)
       (placeholder [Some 288, Some 4, Some 32]) (placeholder [Some 2, Some 144, Some 64])
       64 32 4 4 2 4 (1 / 2) (1 / 2) = Inr (a, b)"
  by (simp add: core_defs keras_defs w0_defs Let_def)

text \<open>
  Witness for C10: a block on symbolic tensors of shapes \<open>(288, 4, 32)\<close> and
  \<open>(2, 144, 64)\<close>.
\<close>

theorem returned_pixel_embedding_is_inner_step_witness:
  "\<exists>a b. transformer_in_transformer_block keras (block_w0 0)
       (placeholder [Some 288, Some 4, Some 32]) (placeholder [Some 2, Some 144, Some 64])
       64 32 4 4 2 4 (1 / 2) (1 / 2) = Inr (a, b)
     \<and> inner_transformer_step keras (block_w0 0) (placeholder [Some 288, Some 4, Some 32])
         32 2 4 (1 / 2) = Inr a
     \<and> outer_transformer_step keras (block_w0 0) a (placeholder [Some 2, Some 144, Some 64])
         64 32 4 4 4 (1 / 2) = Inr b"
proof -
  from keras_block_example obtain a b where
    ab: "transformer_in_transformer_block keras (block_w0 0)
       (placeholder [Some 288, Some 4, Some 32]) (placeholder [Some 2, Some 144, Some 64])
       64 32 4 4 2 4 (1 / 2) (1 / 2) = Inr (a, b)"
    by blast
  from returned_pixel_embedding_is_inner_step [OF ab] ab show ?thesis
    by blast
qed

subsection \<open>The block loop\<close>

lemma for_loop_append:
  "for_loop body (xs @ ys) s = bindR (for_loop body xs s) (for_loop body ys)"
proof (induction xs arbitrary: s)
  case Nil
  show ?case by simp
next
  case (Cons a xs)
  have "for_loop body (xs @ ys) = (\<lambda>x. bindR (for_loop body xs x) (for_loop body ys))"
    by (rule ext) (rule Cons.IH)
  then show ?case by (simp add: bindR_assoc)
qed

lemma for_loop_single: "for_loop body [k] = body k"
proof (rule ext)
  fix s
  have "for_loop body [] = Inr" by (rule ext) simp
  then show "for_loop body [k] s = body k s" by (simp add: bindR_Inr_right)
qed

lemma for_loop_upt: "for_loop body [0 ..< k] s = iterate_steps body k s"
  by (induction k) (simp_all add: for_loop_append for_loop_single)

text \<open>
  Claim C4. The block loop of \<^verbatim>\<open>get_model\<close> over \<open>k\<close> blocks is the single-block
  transform applied \<open>k\<close> times in sequence, block \<open>i\<close> with the weights of block \<open>i\<close>; a
  stack of two blocks is two sequential calls on the threaded pair.
\<close>

theorem block_stack_is_sequential:
  "block_loop fw wb (int k) od idim npx oh ih mr ad pd s =
     iterate_steps (\<lambda>i (px, pt).
         transformer_in_transformer_block fw (wb i) px pt od idim npx oh ih mr ad pd) k s
   \<and> block_loop fw wb 2 od idim npx oh ih mr ad pd (px, pt) =
     bindR (transformer_in_transformer_block fw (wb 0) px pt od idim npx oh ih mr ad pd)
       (\<lambda>(px', pt').
          transformer_in_transformer_block fw (wb 1) px' pt' od idim npx oh ih mr ad pd)"
proof
  show "block_loop fw wb (int k) od idim npx oh ih mr ad pd s =
     iterate_steps (\<lambda>i (px, pt).
         transformer_in_transformer_block fw (wb i) px pt od idim npx oh ih mr ad pd) k s"
    by (simp add: block_loop_def py_range_def for_loop_upt)
  have "py_range 2 = [0, 1]"
    by (simp add: py_range_def upt_rec)
  then show "block_loop fw wb 2 od idim npx oh ih mr ad pd (px, pt) =
     bindR (transformer_in_transformer_block fw (wb 0) px pt od idim npx oh ih mr ad pd)
       (\<lambda>(px', pt').
          transformer_in_transformer_block fw (wb 1) px' pt' od idim npx oh ih mr ad pd)"
    by (simp add: block_loop_def for_loop_single del: for_loop.simps(1))
qed

lemma for_loop_invariant:
  assumes "\<And>i s. I s \<Longrightarrow> \<exists>s'. body i s = Inr s' \<and> I s'" and "I s"
  shows "\<exists>s'. for_loop body xs s = Inr s' \<and> I s'"
  using assms(2)
proof (induction xs arbitrary: s)
  case Nil
  then show ?case by simp
next
  case (Cons i xs)
  from assms(1) [OF Cons.prems] obtain s1 where s1: "body i s = Inr s1" "I s1" by blast
  from Cons.IH [OF s1(2)] s1(1) show ?case by simp
qed

subsection \<open>The steps of the patch embedder\<close>

text \<open>
  Claim C6, amended. \<^verbatim>\<open>patch_embed\<close> folds the pixel vectors of a patch, normalises,
  projects to the outer dimension, normalises again, applies the \<^verbatim>\<open>PatchEncoder\<close>'s own
  linear projection, adds the learned position embedding to that projection, and
  applies dropout.
\<close>

theorem patch_embed_runs_steps:
  "patch_embed fw w px np od idim npx = patch_embed_steps fw w px np od idim npx"
  unfolding patch_embed_def patch_embed_steps_def PatchEncoder_init_def PatchEncoder_call_def
  by (simp add: bindR_assoc bindR_Inr_right)

text \<open>
  Claim C6, as stated, fails: the graph \<^verbatim>\<open>patch_embed\<close> builds is not the graph of the
  specified sequence. The \<^verbatim>\<open>PatchEncoder\<close> projects the normalised tensor once more
  before the position embedding is added.
\<close>

theorem patch_embed_adds_to_normalised_counterexample:
  "patch_embed keras patch_w0 (placeholder [Some 32, Some 4, Some 8]) 16 8 8 4
   \<noteq> patch_embed_as_specified keras patch_w0 (placeholder [Some 32, Some 4, Some 8]) 16 8 8 4"
  by (simp add: core_defs patch_embed_as_specified_def keras_defs w0_defs Let_def)

subsection \<open>The number of patches\<close>

lemma pixel_embed_num_patches:
  assumes "pixel_embed fw w x (ih, iw) (ph, pw) d s = Inr (t, n, ips)"
  shows "ph \<noteq> 0 \<and> pw \<noteq> 0 \<and> n = (ih div ph) * (iw div pw)"
proof -
  from assms obtain a b c e where sh: "tensor_shape fw x = [a, b, c, e]"
    by (auto simp add: pixel_embed_def split: list.splits)
  from assms sh have "ph \<noteq> 0"
    by (auto simp add: pixel_embed_def py_floordiv_def split: if_splits)
  moreover from assms sh \<open>ph \<noteq> 0\<close> have "pw \<noteq> 0"
    by (auto simp add: pixel_embed_def py_floordiv_def split: if_splits)
  moreover from assms sh \<open>ph \<noteq> 0\<close> \<open>pw \<noteq> 0\<close> have "n = (ih div ph) * (iw div pw)"
    by (auto simp add: pixel_embed_def py_floordiv_def Let_def bindR_def split: sum.splits)
  ultimately show ?thesis by simp
qed

text \<open>
  Claim C1. When the image height and width are divisible by the patch height and
  width, the \<^verbatim>\<open>num_patches\<close> that \<^verbatim>\<open>pixel_embed\<close> returns is
  \<open>(image_h / patch_h) * (image_w / patch_w)\<close> exactly, and it is the same for every input
  tensor, stride, inner dimension, weights and framework.
\<close>

theorem num_patches_exact:
  assumes "pixel_embed fw w x (ih, iw) (ph, pw) d s = Inr (t, n, ips)"
    and "ih mod ph = 0" and "iw mod pw = 0"
  shows "real_of_int n = (real_of_int ih / real_of_int ph) * (real_of_int iw / real_of_int pw)
    \<and> (\<forall>fw' w' x' d' s' t' n' ips'.
         pixel_embed fw' w' x' (ih, iw) (ph, pw) d' s' = Inr (t', n', ips') \<longrightarrow> n' = n)"
proof -
  from pixel_embed_num_patches [OF assms(1)]
  have n: "ph \<noteq> 0" "pw \<noteq> 0" "n = (ih div ph) * (iw div pw)"
    by simp_all
  from assms(2,3) have "ph dvd ih" "pw dvd iw"
    by (simp_all add: dvd_eq_mod_eq_0)
  then have "real_of_int (ih div ph) = real_of_int ih / real_of_int ph"
    and "real_of_int (iw div pw) = real_of_int iw / real_of_int pw"
    by (simp_all add: real_of_int_div)
  with n have "real_of_int n
      = (real_of_int ih / real_of_int ph) * (real_of_int iw / real_of_int pw)"
    by simp
  moreover have "\<forall>fw' w' x' d' s' t' n' ips'.
         pixel_embed fw' w' x' (ih, iw) (ph, pw) d' s' = Inr (t', n', ips') \<longrightarrow> n' = n"
  proof (intro allI impI)
    fix fw' w' x' d' s' t' n' ips'
    assume h: "pixel_embed fw' w' x' (ih, iw) (ph, pw) d' s' = Inr (t', n', ips')"
    from pixel_embed_num_patches [OF h] n(3) show "n' = n" by simp
  qed
  ultimately show ?thesis by simp
qed

lemma keras_pixel_embed_example:
  "\<exists>t. pixel_embed keras pixel_w0 (placeholder [None, Some 96, Some 96, Some 3])
       (96, 96) (8, 8) 32 4 = Inr (t, 144, [2, 2])"
  by (simp add: core_defs keras_defs w0_defs Let_def)

text \<open>
  Witness for C1: the notebook's configuration, \<open>96 / 8 * (96 / 8) = 144\<close> patches.
\<close>

theorem num_patches_exact_witness:
  "\<exists>t. pixel_embed keras pixel_w0 (placeholder [None, Some 96, Some 96, Some 3])
       (96, 96) (8, 8) 32 4 = Inr (t, 144, [2, 2])
     \<and> real_of_int 144 = (real_of_int 96 / real_of_int 8) * (real_of_int 96 / real_of_int 8)"
proof -
  from keras_pixel_embed_example obtain t where
    t: "pixel_embed keras pixel_w0 (placeholder [None, Some 96, Some 96, Some 3])
       (96, 96) (8, 8) 32 4 = Inr (t, 144, [2, 2])"
    by blast
  have m: "(96 :: int) mod 8 = 0" by simp
  have "real_of_int 144 = (real_of_int 96 / real_of_int 8) * (real_of_int 96 / real_of_int 8)"
    by (rule conjunct1 [OF num_patches_exact [OF t m m]])
  with t show ?thesis
    by (intro exI [of _ t] conjI)
qed

subsection \<open>The inner step acts on each patch on its own\<close>

lemma local_call_layer:
  assumes "\<forall>l. ctor = Inr l \<longrightarrow> local_layer sl l"
    and "call_layer ctor x = Inr x'" and "call_layer ctor y = Inr y'" and "sl i x = sl i y"
  shows "sl i x' = sl i y'"
proof -
  from assms(2) obtain l where l: "ctor = Inr l" "l x = Inr x'"
    unfolding call_layer_def by (rule bindR_InrE)
  with assms(3) have "l y = Inr y'"
    by (simp add: call_layer_def)
  moreover from assms(1) l have "local_layer sl l" by simp
  ultimately show ?thesis
    using l(2) assms(4) unfolding local_layer_def by blast
qed

lemma local_call_layer2:
  assumes "\<forall>l. ctor = Inr l \<longrightarrow> local_layer2 sl l"
    and "call_layer2 ctor q v = Inr r" and "call_layer2 ctor q' v' = Inr r'"
    and "sl i q = sl i q'" and "sl i v = sl i v'"
  shows "sl i r = sl i r'"
proof -
  from assms(2) obtain l where l: "ctor = Inr l" "l q v = Inr r"
    unfolding call_layer2_def by (rule bindR_InrE)
  with assms(3) have "l q' v' = Inr r'"
    by (simp add: call_layer2_def)
  moreover from assms(1) l have "local_layer2 sl l" by simp
  ultimately show ?thesis
    using l(2) assms(4,5) unfolding local_layer2_def by blast
qed

lemma local_add2:
  assumes "local_merge sl f" and "f [a, b] = Inr r" and "f [a', b'] = Inr r'"
    and "sl i a = sl i a'" and "sl i b = sl i b'"
  shows "sl i r = sl i r'"
proof -
  from assms(4,5) have "map (sl i) [a, b] = map (sl i) [a', b']" by simp
  with assms(1,2,3) show ?thesis
    unfolding local_merge_def by blast
qed

lemma local_mlp:
  assumes B: "leading_axis_is_batch fw sl"
    and X: "mlp fw w x h out r = Inr x'" and Y: "mlp fw w y h out r = Inr y'"
    and S: "sl i x = sl i y"
  shows "sl i x' = sl i y'"
proof -
  let ?d1 = "layers_Dense fw h Gelu (w_dense1 w)"
  let ?p1 = "layers_Dropout fw r (w_drop1 w)"
  let ?d2 = "layers_Dense fw out Linear (w_dense2 w)"
  let ?p2 = "layers_Dropout fw r (w_drop2 w)"
  from X obtain a1 a2 a3 where
    x: "call_layer ?d1 x = Inr a1" "call_layer ?p1 a1 = Inr a2"
       "call_layer ?d2 a2 = Inr a3" "call_layer ?p2 a3 = Inr x'"
    unfolding mlp_def by (auto elim!: bindR_InrE)
  from Y obtain b1 b2 b3 where
    y: "call_layer ?d1 y = Inr b1" "call_layer ?p1 b1 = Inr b2"
       "call_layer ?d2 b2 = Inr b3" "call_layer ?p2 b3 = Inr y'"
    unfolding mlp_def by (auto elim!: bindR_InrE)
  from B have dense: "\<And>u a w. \<forall>l. layers_Dense fw u a w = Inr l \<longrightarrow> local_layer sl l"
    and drop: "\<And>r w. \<forall>l. layers_Dropout fw r w = Inr l \<longrightarrow> local_layer sl l"
    unfolding leading_axis_is_batch_def by blast+
  have 1: "sl i a1 = sl i b1" by (rule local_call_layer [OF dense x(1) y(1) S])
  have 2: "sl i a2 = sl i b2" by (rule local_call_layer [OF drop x(2) y(2) 1])
  have 3: "sl i a3 = sl i b3" by (rule local_call_layer [OF dense x(3) y(3) 2])
  show ?thesis by (rule local_call_layer [OF drop x(4) y(4) 3])
qed

lemma local_inner_transformer_step:
  assumes B: "leading_axis_is_batch fw sl"
    and X: "inner_transformer_step fw w x idim ih mr ad = Inr x'"
    and Y: "inner_transformer_step fw w y idim ih mr ad = Inr y'"
    and S: "sl i x = sl i y"
  shows "sl i x' = sl i y'"
proof -
  let ?n1 = "layers_LayerNormalization fw (1 / 100000) (w_in_norm1 w)"
  let ?at = "layers_MultiHeadAttention fw ih idim ad (w_in_attention w)"
  let ?n2 = "layers_LayerNormalization fw (1 / 100000) (w_in_norm2 w)"
  from X obtain a1 a2 a3 a4 a5 where
    x: "call_layer ?n1 x = Inr a1" "call_layer2 ?at a1 a1 = Inr a2"
       "layers_add fw [a2, x] = Inr a3" "call_layer ?n2 a3 = Inr a4"
       "mlp fw (w_in_mlp w) a4 (idim * mr) idim mlp_default_drop_rate = Inr a5"
       "layers_add fw [a5, a3] = Inr x'"
    unfolding inner_transformer_step_def Let_def by (auto elim!: bindR_InrE)
  from Y obtain b1 b2 b3 b4 b5 where
    y: "call_layer ?n1 y = Inr b1" "call_layer2 ?at b1 b1 = Inr b2"
       "layers_add fw [b2, y] = Inr b3" "call_layer ?n2 b3 = Inr b4"
       "mlp fw (w_in_mlp w) b4 (idim * mr) idim mlp_default_drop_rate = Inr b5"
       "layers_add fw [b5, b3] = Inr y'"
    unfolding inner_transformer_step_def Let_def by (auto elim!: bindR_InrE)
  from B have norm: "\<And>e w. \<forall>l. layers_LayerNormalization fw e w = Inr l \<longrightarrow> local_layer sl l"
    and att: "\<And>h k d w. \<forall>l. layers_MultiHeadAttention fw h k d w = Inr l \<longrightarrow> local_layer2 sl l"
    and add: "local_merge sl (layers_add fw)"
    unfolding leading_axis_is_batch_def by blast+
  have 1: "sl i a1 = sl i b1" by (rule local_call_layer [OF norm x(1) y(1) S])
  have 2: "sl i a2 = sl i b2" by (rule local_call_layer2 [OF att x(2) y(2) 1 1])
  have 3: "sl i a3 = sl i b3" by (rule local_add2 [OF add x(3) y(3) 2 S])
  have 4: "sl i a4 = sl i b4" by (rule local_call_layer [OF norm x(4) y(4) 3])
  have 5: "sl i a5 = sl i b5" by (rule local_mlp [OF B x(5) y(5) 4])
  show ?thesis by (rule local_add2 [OF add x(6) y(6) 5 3])
qed

text \<open>
  Claim C7. The (batch \<open>\<times>\<close> patch) grouping is the leading axis of the pixel embedding.
  In a framework whose normalisation, attention, dense, dropout and addition layers
  treat the leading axis as the batch axis, the pixel embedding a block returns at
  leading index \<open>i\<close> is determined by the input pixel embedding at index \<open>i\<close> (and the
  block's weights): two runs of the block whose pixel inputs agree at index \<open>i\<close> return
  pixel embeddings that agree at index \<open>i\<close>, whatever the other patches, the other batch
  elements and the patch embeddings are.
\<close>

theorem inner_attention_is_per_patch:
  assumes "leading_axis_is_batch fw sl"
    and "transformer_in_transformer_block fw w x pt od idim npx oh ih mr ad pd = Inr (x', pt')"
    and "transformer_in_transformer_block fw w y qt od' idim npx' oh' ih mr ad pd' = Inr (y', qt')"
    and "sl i x = sl i y"
  shows "sl i x' = sl i y'"
proof -
  have X: "inner_transformer_step fw w x idim ih mr ad = Inr x'"
    by (rule block_returns_inner_outer(1) [OF assms(2)])
  have Y: "inner_transformer_step fw w y idim ih mr ad = Inr y'"
    by (rule block_returns_inner_outer(1) [OF assms(3)])
  show ?thesis
    by (rule local_inner_transformer_step [OF assms(1) X Y assms(4)])
qed

lemma itensor_slice_map: "itensor_slice i (map f t) = map_option f (itensor_slice i t)"
  by (simp add: itensor_slice_def)

lemma itensor_slice_map2:
  "length a = length b \<Longrightarrow>
   itensor_slice i (map2 f a b) =
     (case (itensor_slice i a, itensor_slice i b) of
        (Some ra, Some rb) \<Rightarrow> Some (f ra rb) | _ \<Rightarrow> None)"
  by (simp add: itensor_slice_def)

text \<open>
  The integer-tensor framework treats the leading axis as the batch axis.
\<close>

lemma itensors_leading_axis_is_batch: "leading_axis_is_batch itensors itensor_slice"
  unfolding leading_axis_is_batch_def
proof (intro conjI allI impI)
  fix eps w l
  assume "layers_LayerNormalization itensors eps w = Inr l"
  then show "local_layer itensor_slice l"
    by (auto simp add: itensors_def local_layer_def itensor_slice_map)
next
  fix h k d w l
  assume "layers_MultiHeadAttention itensors h k d w = Inr l"
  then have l: "l = itensor_attention w"
    by (auto simp add: itensors_def checked_def split: if_splits)
  show "local_layer2 itensor_slice l"
    unfolding local_layer2_def l
    by (auto simp add: itensor_attention_def itensor_slice_map2 split: if_splits)
next
  fix u a w l
  assume "layers_Dense itensors u a w = Inr l"
  then show "local_layer itensor_slice l"
    by (auto simp add: itensors_def checked_def local_layer_def itensor_slice_map
        split: if_splits)
next
  fix r w l
  assume "layers_Dropout itensors r w = Inr l"
  then show "local_layer itensor_slice l"
    by (auto simp add: itensors_def local_layer_def)
next
  show "local_merge itensor_slice (layers_add itensors)"
    unfolding local_merge_def
  proof (intro allI impI, elim conjE)
    fix i xs ys r r'
    assume x: "layers_add itensors xs = Inr r" and y: "layers_add itensors ys = Inr r'"
      and s: "map (itensor_slice i) xs = map (itensor_slice i) ys"
    from x obtain a b where xs: "xs = [a, b]" "map (map length) a = map (map length) b"
        "r = map2 (map2 (map2 (+))) a b"
      by (auto simp add: itensors_def itensor_add_def split: list.splits if_splits)
    from y obtain a' b' where ys: "ys = [a', b']" "map (map length) a' = map (map length) b'"
        "r' = map2 (map2 (map2 (+))) a' b'"
      by (auto simp add: itensors_def itensor_add_def split: list.splits if_splits)
    from xs(2) have la: "length a = length b" by (rule map_eq_imp_length_eq)
    from ys(2) have la': "length a' = length b'" by (rule map_eq_imp_length_eq)
    from s xs(1) ys(1) have e: "itensor_slice i a = itensor_slice i a'"
        "itensor_slice i b = itensor_slice i b'"
      by simp_all
    show "itensor_slice i r = itensor_slice i r'"
      unfolding xs(3) ys(3) by (simp add: itensor_slice_map2 la la' e)
  qed
qed

lemma itensor_block_run1:
  "transformer_in_transformer_block itensors iblock_w
     [[[1, 2], [3, 4]], [[5, 6], [7, 8]]] [[[1, 0, 2], [0, 1, 1]]] 3 2 2 1 1 2 (1 / 2) (1 / 2)
   = Inr ([[[18, 21], [36, 39]], [[54, 57], [72, 75]]],
          [[[- 350372, - 350375, - 350369], [- 350374, - 350371, - 350371]]])"
  by (simp add: core_defs itensor_defs Let_def upt_rec replicate_numeral)

lemma itensor_block_run2:
  "transformer_in_transformer_block itensors iblock_w
     [[[1, 2], [3, 4]], [[0, 6], [7, 1]]] [[[1, 1, 2], [0, 1, 3]]] 3 2 2 1 1 2 (1 / 2) (1 / 2)
   = Inr ([[[18, 21], [36, 39]], [[24, 42], [51, 33]]],
          [[[- 247998, - 247998, - 247995], [- 248001, - 247998, - 247992]]])"
  by (simp add: core_defs itensor_defs Let_def upt_rec replicate_numeral)

text \<open>
  Witness for C7: two runs on integer tensors with two patches of two pixel tokens; the
  inputs agree on patch \<open>0\<close> and differ on patch \<open>1\<close> and on the patch embedding.
\<close>

theorem inner_attention_is_per_patch_witness:
  "transformer_in_transformer_block itensors iblock_w
     [[[1, 2], [3, 4]], [[5, 6], [7, 8]]] [[[1, 0, 2], [0, 1, 1]]] 3 2 2 1 1 2 (1 / 2) (1 / 2)
   = Inr ([[[18, 21], [36, 39]], [[54, 57], [72, 75]]],
          [[[- 350372, - 350375, - 350369], [- 350374, - 350371, - 350371]]])
   \<and> transformer_in_transformer_block itensors iblock_w
     [[[1, 2], [3, 4]], [[0, 6], [7, 1]]] [[[1, 1, 2], [0, 1, 3]]] 3 2 2 1 1 2 (1 / 2) (1 / 2)
   = Inr ([[[18, 21], [36, 39]], [[24, 42], [51, 33]]],
          [[[- 247998, - 247998, - 247995], [- 248001, - 247998, - 247992]]])
   \<and> itensor_slice 0 [[[1, 2], [3, 4]], [[5, 6], [7, 8]]]
     = itensor_slice 0 [[[1, 2], [3, 4]], [[0, 6], [7, 1]]]
   \<and> itensor_slice 0 [[[18, 21], [36, 39]], [[54, 57], [72, 75]]]
     = itensor_slice 0 [[[18, 21], [36, 39]], [[24, 42], [51, 33]]]"
proof -
  have s: "itensor_slice 0 [[[1, 2], [3, 4]], [[5, 6], [7, 8]]]
     = itensor_slice 0 [[[1, 2], [3, 4]], [[0, 6], [7, 1]]]"
    by (simp add: itensor_slice_def)
  have "itensor_slice 0 [[[18, 21], [36, 39]], [[54, 57], [72, 75]]]
     = itensor_slice 0 [[[18, 21], [36, 39]], [[24, 42], [51, 33]]]"
    by (rule inner_attention_is_per_patch
          [OF itensors_leading_axis_is_batch itensor_block_run1 itensor_block_run2 s])
  with s itensor_block_run1 itensor_block_run2 show ?thesis
    by (intro conjI)
qed

subsection \<open>Errors of the framework are never caught\<close>

lemma same_or_fails_refl: "same_or_fails e r r"
  by (simp add: same_or_fails_def)

lemma layer_same_or_fails_refl: "layer_same_or_fails e c c"
  by (cases c) (simp_all add: layer_same_or_fails_def same_or_fails_def)

lemma layer2_same_or_fails_refl: "layer2_same_or_fails e c c"
  by (cases c) (simp_all add: layer2_same_or_fails_def same_or_fails_def)

lemma same_or_fails_bind:
  assumes "same_or_fails e m m'" and "\<And>x. same_or_fails e (k x) (k' x)"
  shows "same_or_fails e (bindR m k) (bindR m' k')"
proof (cases "m' = Inl e")
  case True
  then show ?thesis by (simp add: same_or_fails_def)
next
  case False
  with assms(1) have "m' = m" by (simp add: same_or_fails_def)
  with assms(2) show ?thesis by (cases m) (simp_all add: same_or_fails_def)
qed

lemma same_or_fails_call_layer:
  assumes "layer_same_or_fails e c c'"
  shows "same_or_fails e (call_layer c x) (call_layer c' x)"
  using assms
  by (cases c; cases c')
     (auto simp add: layer_same_or_fails_def call_layer_def same_or_fails_def)

lemma same_or_fails_call_layer2:
  assumes "layer2_same_or_fails e c c'"
  shows "same_or_fails e (call_layer2 c q v) (call_layer2 c' q v)"
  using assms
  by (cases c; cases c')
     (auto simp add: layer2_same_or_fails_def call_layer2_def same_or_fails_def)

lemma fails_moreD:
  assumes "fails_more e fw fw'"
  shows "tensor_shape fw' = tensor_shape fw"
    and "same_or_fails e (layers_Input fw s) (layers_Input fw' s)"
    and "layer_same_or_fails e (layers_Rescaling fw r1) (layers_Rescaling fw' r1)"
    and "layer_same_or_fails e (layers_Resizing fw i1 i2) (layers_Resizing fw' i1 i2)"
    and "layer_same_or_fails e (layers_RandomFlip fw m w) (layers_RandomFlip fw' m w)"
    and "layer_same_or_fails e (layers_RandomRotation fw r1 w) (layers_RandomRotation fw' r1 w)"
    and "layer_same_or_fails e (layers_RandomContrast fw r1 w) (layers_RandomContrast fw' r1 w)"
    and "layer_same_or_fails e (layers_RandomZoom fw r1 r2 w) (layers_RandomZoom fw' r1 r2 w)"
    and "layer_same_or_fails e (layers_Conv2D fw i1 i2 i3 p w) (layers_Conv2D fw' i1 i2 i3 p w)"
    and "same_or_fails e (tf_image_extract_patches fw x l1 l2 l3 p)
           (tf_image_extract_patches fw' x l1 l2 l3 p)"
    and "same_or_fails e (tf_reshape fw x t) (tf_reshape fw' x t)"
    and "layer_same_or_fails e (layers_Dense fw i1 a w) (layers_Dense fw' i1 a w)"
    and "layer_same_or_fails e (layers_Embedding fw i1 i2 w) (layers_Embedding fw' i1 i2 w)"
    and "same_or_fails e (tf_range fw i1 i2) (tf_range fw' i1 i2)"
    and "same_or_fails e (tf_add fw x y) (tf_add fw' x y)"
    and "layer_same_or_fails e (layers_LayerNormalization fw r1 w)
           (layers_LayerNormalization fw' r1 w)"
    and "layer_same_or_fails e (layers_Dropout fw r1 w) (layers_Dropout fw' r1 w)"
    and "layer2_same_or_fails e (layers_MultiHeadAttention fw i1 i2 r1 w)
           (layers_MultiHeadAttention fw' i1 i2 r1 w)"
    and "same_or_fails e (layers_add fw xs) (layers_add fw' xs)"
    and "layer_same_or_fails e (layers_GlobalAvgPool1D fw) (layers_GlobalAvgPool1D fw')"
  using assms unfolding fails_more_def by simp_all

lemma same_or_fails_mlp:
  assumes "fails_more e fw fw'"
  shows "same_or_fails e (mlp fw w x h out r) (mlp fw' w x h out r)"
  unfolding mlp_def
  by (intro same_or_fails_bind same_or_fails_call_layer same_or_fails_refl
        fails_moreD [OF assms])

lemma same_or_fails_data_augmentation:
  assumes "fails_more e fw fw'"
  shows "same_or_fails e (data_augmentation fw w x) (data_augmentation fw' w x)"
  unfolding data_augmentation_def
  by (intro same_or_fails_bind same_or_fails_call_layer same_or_fails_refl
        fails_moreD [OF assms])

text \<open>Constructing a \<^verbatim>\<open>PatchEncoder\<close> and calling it.\<close>

lemma same_or_fails_PatchEncoder:
  assumes "fails_more e fw fw'" and k: "\<And>y. same_or_fails e (k y) (k' y)"
  shows "same_or_fails e
           (bindR (PatchEncoder_init fw w n d) (\<lambda>enc. bindR (PatchEncoder_call fw enc x) k))
           (bindR (PatchEncoder_init fw' w n d) (\<lambda>enc. bindR (PatchEncoder_call fw' enc x) k'))"
proof -
  let ?D = "layers_Dense fw d Linear (w_projection w)"
  let ?D' = "layers_Dense fw' d Linear (w_projection w)"
  let ?E = "layers_Embedding fw n d (w_position_embedding w)"
  let ?E' = "layers_Embedding fw' n d (w_position_embedding w)"
  have D: "layer_same_or_fails e ?D ?D'" and E: "layer_same_or_fails e ?E ?E'"
    by (rule fails_moreD [OF assms(1)])+
  show ?thesis
  proof (cases "?D' = Inl e")
    case True
    then show ?thesis by (simp add: PatchEncoder_init_def same_or_fails_def)
  next
    case nD: False
    show ?thesis
    proof (cases ?D)
      case (Inl a)
      with D nD have "?D' = Inl a" by (simp add: layer_same_or_fails_def)
      with Inl show ?thesis by (simp add: PatchEncoder_init_def same_or_fails_def)
    next
      case (Inr p)
      with D nD obtain p' where p': "?D' = Inr p'" "\<And>x. same_or_fails e (p x) (p' x)"
        by (cases ?D') (auto simp add: layer_same_or_fails_def)
      show ?thesis
      proof (cases "?E' = Inl e")
        case True
        with Inr p' show ?thesis by (simp add: PatchEncoder_init_def same_or_fails_def)
      next
        case nE: False
        show ?thesis
        proof (cases ?E)
          case (Inl a)
          with E nE have "?E' = Inl a" by (simp add: layer_same_or_fails_def)
          with Inl Inr p' show ?thesis by (simp add: PatchEncoder_init_def same_or_fails_def)
        next
          case Er: (Inr q)
          with E nE obtain q' where q': "?E' = Inr q'" "\<And>x. same_or_fails e (q x) (q' x)"
            by (cases ?E') (auto simp add: layer_same_or_fails_def)
          have "same_or_fails e
             (bindR (tf_range fw 0 n) (\<lambda>positions. bindR (p x) (\<lambda>a.
                bindR (q positions) (\<lambda>b. bindR (tf_add fw a b) k))))
             (bindR (tf_range fw' 0 n) (\<lambda>positions. bindR (p' x) (\<lambda>a.
                bindR (q' positions) (\<lambda>b. bindR (tf_add fw' a b) k'))))"
            by (intro same_or_fails_bind same_or_fails_refl p'(2) q'(2) k
                  fails_moreD [OF assms(1)])
          with Inr p' Er q' show ?thesis
            by (simp add: PatchEncoder_init_def PatchEncoder_call_def bindR_assoc)
        qed
      qed
    qed
  qed
qed

lemma same_or_fails_pixel_embed:
  assumes "fails_more e fw fw'"
  shows "same_or_fails e (pixel_embed fw w x isz psz d s) (pixel_embed fw' w x isz psz d s)"
proof (cases "length (tensor_shape fw x) = 4")
  case True
  show ?thesis
    unfolding pixel_embed_def Let_def case_rank4 fails_moreD(1) [OF assms] if_P [OF True]
    by (intro same_or_fails_PatchEncoder same_or_fails_bind same_or_fails_call_layer
          same_or_fails_refl fails_moreD [OF assms] assms)
next
  case False
  show ?thesis
    unfolding pixel_embed_def Let_def case_rank4 fails_moreD(1) [OF assms] if_not_P [OF False]
    by (rule same_or_fails_refl)
qed

lemma same_or_fails_patch_embed:
  assumes "fails_more e fw fw'"
  shows "same_or_fails e (patch_embed fw w x n od idim npx) (patch_embed fw' w x n od idim npx)"
  unfolding patch_embed_def
  by (intro same_or_fails_PatchEncoder same_or_fails_bind same_or_fails_call_layer
        same_or_fails_refl fails_moreD [OF assms] assms)

lemma same_or_fails_block:
  assumes "fails_more e fw fw'"
  shows "same_or_fails e
     (transformer_in_transformer_block fw w px pt od idim npx oh ih mr ad pd)
     (transformer_in_transformer_block fw' w px pt od idim npx oh ih mr ad pd)"
proof (cases "length (tensor_shape fw pt) = 3")
  case True
  show ?thesis
    unfolding transformer_in_transformer_block_def Let_def case_rank3
      fails_moreD(1) [OF assms] if_P [OF True]
    by (intro same_or_fails_bind same_or_fails_call_layer same_or_fails_call_layer2
          same_or_fails_refl same_or_fails_mlp fails_moreD [OF assms] assms)
next
  case False
  show ?thesis
    unfolding transformer_in_transformer_block_def Let_def case_rank3
      fails_moreD(1) [OF assms] if_not_P [OF False]
    by (intro same_or_fails_bind same_or_fails_call_layer same_or_fails_call_layer2
          same_or_fails_refl same_or_fails_mlp fails_moreD [OF assms] assms)
qed

lemma same_or_fails_for_loop:
  assumes "\<And>i s. same_or_fails e (body i s) (body' i s)"
  shows "same_or_fails e (for_loop body xs s) (for_loop body' xs s)"
proof (induction xs arbitrary: s)
  case Nil
  show ?case by (simp add: same_or_fails_refl)
next
  case (Cons i xs)
  show ?case
    unfolding for_loop.simps
    by (rule same_or_fails_bind [OF assms]) (rule Cons.IH)
qed

lemma same_or_fails_block_loop:
  assumes "fails_more e fw fw'"
  shows "same_or_fails e (block_loop fw wb n od idim npx oh ih mr ad pd s)
           (block_loop fw' wb n od idim npx oh ih mr ad pd s)"
  unfolding block_loop_def
  by (rule same_or_fails_for_loop) (simp add: split_beta same_or_fails_block [OF assms])

lemma same_or_fails_get_model:
  assumes "fails_more e fw fw'"
  shows "same_or_fails e (get_model fw w isz psz od idim n oh ih mr ad pd s)
           (get_model fw' w isz psz od idim n oh ih mr ad pd s)"
  unfolding get_model_def Let_def split_beta
  by (intro same_or_fails_bind same_or_fails_call_layer same_or_fails_refl
        same_or_fails_data_augmentation same_or_fails_pixel_embed same_or_fails_patch_embed
        same_or_fails_block_loop fails_moreD [OF assms] assms)

lemma keras_reshape_raises_fails_more:
  "fails_more FrameworkShapeError keras keras_reshape_raises"
  unfolding fails_more_def keras_reshape_raises_def
  by (simp add: same_or_fails_refl layer_same_or_fails_refl layer2_same_or_fails_refl)
     (simp add: same_or_fails_def)

subsection \<open>Static shapes of a block on the graph-building framework\<close>

lemma LayerNormalization_shape_rank3 [simp]:
  "LayerNormalization_shape [a, b, Some c] = Inr [a, b, Some c]"
  by (simp add: LayerNormalization_shape_def)

lemma Dense_shape_rank3 [simp]: "Dense_shape u [a, b, Some c] = Inr [a, b, Some u]"
  by (simp add: Dense_shape_def)

lemma MultiHeadAttention_shape_self [simp]:
  "MultiHeadAttention_shape [a, b, Some c] [a, b, Some c] = Inr [a, b, Some c]"
  by (simp add: MultiHeadAttention_shape_def)

lemma add_shape_same [simp]:
  "add_shape [[a, Some p, Some q], [a, Some p, Some q]] = Inr [a, Some p, Some q]"
  by (cases a)
     (simp_all add: add_shape_def merge_elemwise_shape_def merge_dim_def broadcast_shape_def
        broadcast_dim_def)

lemma dim_multiply_known [simp]: "dim_multiply (Some i) (Some j) = Some (i * j)"
  by (simp add: dim_multiply_def)

lemma dim_multiply_unknown [simp]:
  "dim_multiply None b = (if b = Some 0 then b else None)"
  by (cases b) (simp_all add: dim_multiply_def)

lemma dim_multiply_unknown_right [simp]:
  "dim_multiply a None = (if a = Some 0 then a else None)"
  by (cases a) (simp_all add: dim_multiply_def)

text \<open>Every \<^verbatim>\<open>tf.reshape\<close> of the notebook has a target \<open>(-1, p, q)\<close>.\<close>

lemma reshape_wild_rank3:
  assumes "0 < p" and "0 < q"
  shows "reshape_shape s [Some (- 1), Some p, Some q] =
     (case num_elements s of
        None \<Rightarrow> Inr [None, Some p, Some q]
      | Some n \<Rightarrow>
          if n mod (p * q) = 0 then Inr [Some (n div (p * q)), Some p, Some q]
          else Inl FrameworkShapeError)"
proof -
  have n: "p \<noteq> - 1" "q \<noteq> - 1" "\<not> p < - 1" "\<not> q < - 1" "p \<noteq> 0" "q \<noteq> 0"
    using assms by arith+
  have k: "0 < p * q" using assms by simp
  have o: "num_elements [None, Some p, Some q] = None"
    by (simp add: num_elements_def n)
  have e: "known_elems [None, Some p, Some q] = p * q"
    by (simp add: known_elems_def)
  have u: "num_unknown [None, Some p, Some q] = 1"
    by (simp add: num_unknown_def)
  show ?thesis
  proof (cases "num_elements s")
    case None
    then show ?thesis
      unfolding reshape_shape_def Let_def by (simp add: n o e u)
  next
    case (Some m)
    then show ?thesis
      unfolding reshape_shape_def Let_def by (simp add: n o e u k)
  qed
qed

lemma reshape_fold_known:
  assumes "0 < np" and "0 < npx" and "0 < idim"
  shows "reshape_shape [Some (b * np), Some npx, Some idim]
           [Some (- 1), Some np, Some (idim * npx)] = Inr [Some b, Some np, Some (idim * npx)]"
proof -
  have p: "0 < idim * npx" using assms by simp
  have e: "num_elements [Some (b * np), Some npx, Some idim] = Some (b * (np * (idim * npx)))"
    by (simp add: num_elements_def mult_ac)
  have m: "b * (np * (idim * npx)) mod (np * (idim * npx)) = 0"
    and d: "b * (np * (idim * npx)) div (np * (idim * npx)) = b"
    using assms by simp_all
  show ?thesis
    unfolding reshape_wild_rank3 [OF assms(1) p] e by (simp only: option.case m d if_True simp_thms)
qed

lemma reshape_fold_unknown:
  assumes "0 < np" and "0 < npx" and "0 < idim"
  shows "reshape_shape [None, Some npx, Some idim]
           [Some (- 1), Some np, Some (idim * npx)] = Inr [None, Some np, Some (idim * npx)]"
proof -
  have p: "0 < idim * npx" using assms by simp
  have e: "num_elements [None, Some npx, Some idim] = None"
    using assms by (simp add: num_elements_def)
  show ?thesis
    unfolding reshape_wild_rank3 [OF assms(1) p] e by simp
qed

lemma keras_mlp_shape:
  assumes "kshape x = [a, b, Some c]" and "0 < h" and "0 < out"
  shows "\<exists>y. mlp keras w x h out (2 / 10) = Inr y \<and> kshape y = [a, b, Some out]"
  using assms by (simp add: mlp_def keras_call_defs)

lemma keras_inner_step_shape:
  assumes "kshape px = [a, Some npx, Some idim]" and "0 < idim" and "0 < mr" and "0 < ih"
    and "0 \<le> ad" and "ad \<le> 1"
  shows "\<exists>y. inner_transformer_step keras w px idim ih mr ad = Inr y \<and> kshape y = kshape px"
proof -
  from assms have "0 < idim * mr" by simp
  with assms show ?thesis
    by (simp add: inner_transformer_step_def mlp_def mlp_default_drop_rate_def keras_call_defs
        Let_def)
qed

lemma keras_outer_step_shape:
  assumes "kshape px = [bp, Some npx, Some idim]" and "kshape pt = [b, Some np, Some od]"
    and "reshape_shape [bp, Some npx, Some idim] [Some (- 1), Some np, Some (idim * npx)]
           = Inr [b, Some np, Some (idim * npx)]"
    and "0 < od" and "0 < mr" and "0 < oh" and "0 \<le> ad" and "ad \<le> 1"
  shows "\<exists>y. outer_transformer_step keras w px pt od idim npx oh mr ad = Inr y
           \<and> kshape y = kshape pt"
proof -
  from assms have "0 < od * mr" by simp
  with assms show ?thesis
    by (simp add: outer_transformer_step_def mlp_def mlp_default_drop_rate_def keras_call_defs
        Let_def)
qed

lemma keras_block_shapes:
  assumes "kshape px = [bp, Some npx, Some idim]" and "kshape pt = [b, Some np, Some od]"
    and "reshape_shape [bp, Some npx, Some idim] [Some (- 1), Some np, Some (idim * npx)]
           = Inr [b, Some np, Some (idim * npx)]"
    and "0 < idim" and "0 < od" and "0 < mr" and "0 < oh" and "0 < ih"
    and "0 \<le> ad" and "ad \<le> 1"
  shows "\<exists>px' pt'. transformer_in_transformer_block keras w px pt od idim npx oh ih mr ad pd
             = Inr (px', pt')
           \<and> kshape px' = kshape px \<and> kshape pt' = kshape pt"
proof -
  from keras_inner_step_shape [OF assms(1) assms(4) assms(6) assms(8) assms(9,10)]
  obtain px' where i: "inner_transformer_step keras w px idim ih mr ad = Inr px'"
      "kshape px' = kshape px"
    by blast
  from i(2) assms(1) have "kshape px' = [bp, Some npx, Some idim]" by simp
  from keras_outer_step_shape [OF this assms(2) assms(3) assms(5) assms(6) assms(7) assms(9,10)]
  obtain pt' where o: "outer_transformer_step keras w px' pt od idim npx oh mr ad = Inr pt'"
      "kshape pt' = kshape pt"
    by blast
  from i o show ?thesis
    by (simp add: block_decompose)
qed

text \<open>
  Claim C3. On symbolic tensors, for a pixel embedding of shape
  \<open>(batch * num_patches, num_pixels, inner_dim)\<close> and a patch embedding of shape
  \<open>(batch, num_patches, outer_dim)\<close> (the batch size known or unknown), a block called
  with these dimensions, positive head counts and mlp ratio and an attention dropout
  rate in \<open>[0, 1]\<close> returns a pair with the same two shapes as its inputs. (With a rate
  outside \<open>[0, 1]\<close> the attention layer raises.)
\<close>

theorem block_preserves_shapes:
  assumes "kshape px = [map_option (\<lambda>n. n * np) batch, Some npx, Some idim]"
    and "kshape pt = [batch, Some np, Some od]"
    and "0 < np" and "0 < npx" and "0 < idim" and "0 < od"
    and "0 < mr" and "0 < oh" and "0 < ih" and "0 \<le> ad" and "ad \<le> 1"
  shows "\<exists>px' pt'. transformer_in_transformer_block keras w px pt od idim npx oh ih mr ad pd
             = Inr (px', pt')
           \<and> kshape px' = kshape px \<and> kshape pt' = kshape pt"
proof (cases batch)
  case None
  with assms(1) have px: "kshape px = [None, Some npx, Some idim]" by simp
  from assms(2) None have pt: "kshape pt = [None, Some np, Some od]" by simp
  show ?thesis
    by (rule keras_block_shapes [OF px pt reshape_fold_unknown [OF assms(3,4,5)]
          assms(5,6,7,8,9,10,11)])
next
  case (Some b)
  with assms(1) have px: "kshape px = [Some (b * np), Some npx, Some idim]" by simp
  from assms(2) Some have pt: "kshape pt = [Some b, Some np, Some od]" by simp
  show ?thesis
    by (rule keras_block_shapes [OF px pt reshape_fold_known [OF assms(3,4,5)]
          assms(5,6,7,8,9,10,11)])
qed

text \<open>
  Witness for C3: the three configurations (num_patches, num_pixels, inner_dim,
  outer_dim) = (144, 4, 32, 64), (36, 16, 16, 32) and (64, 9, 8, 24), batch size 2.
\<close>

theorem block_preserves_shapes_witness:
  "(\<exists>px' pt'. transformer_in_transformer_block keras (block_w0 0)
        (placeholder [Some (2 * 144), Some 4, Some 32]) (placeholder [Some 2, Some 144, Some 64])
        64 32 4 4 2 4 (1 / 2) (1 / 2) = Inr (px', pt')
      \<and> kshape px' = [Some (2 * 144), Some 4, Some 32]
      \<and> kshape pt' = [Some 2, Some 144, Some 64])
   \<and> (\<exists>px' pt'. transformer_in_transformer_block keras (block_w0 0)
        (placeholder [Some (2 * 36), Some 16, Some 16]) (placeholder [Some 2, Some 36, Some 32])
        32 16 16 4 2 4 (1 / 2) (1 / 2) = Inr (px', pt')
      \<and> kshape px' = [Some (2 * 36), Some 16, Some 16]
      \<and> kshape pt' = [Some 2, Some 36, Some 32])
   \<and> (\<exists>px' pt'. transformer_in_transformer_block keras (block_w0 0)
        (placeholder [Some (2 * 64), Some 9, Some 8]) (placeholder [Some 2, Some 64, Some 24])
        24 8 9 4 2 4 (1 / 2) (1 / 2) = Inr (px', pt')
      \<and> kshape px' = [Some (2 * 64), Some 9, Some 8]
      \<and> kshape pt' = [Some 2, Some 64, Some 24])"
  using block_preserves_shapes [where px = "placeholder [Some (2 * 144), Some 4, Some 32]"
      and np = 144 and batch = "Some 2" and npx = 4 and idim = 32
      and pt = "placeholder [Some 2, Some 144, Some 64]" and od = 64 and mr = 4 and oh = 4
      and ih = 2 and w = "block_w0 0" and ad = "1 / 2" and pd = "1 / 2"]
    block_preserves_shapes [where px = "placeholder [Some (2 * 36), Some 16, Some 16]"
      and np = 36 and batch = "Some 2" and npx = 16 and idim = 16
      and pt = "placeholder [Some 2, Some 36, Some 32]" and od = 32 and mr = 4 and oh = 4
      and ih = 2 and w = "block_w0 0" and ad = "1 / 2" and pd = "1 / 2"]
    block_preserves_shapes [where px = "placeholder [Some (2 * 64), Some 9, Some 8]"
      and np = 64 and batch = "Some 2" and npx = 9 and idim = 8
      and pt = "placeholder [Some 2, Some 64, Some 24]" and od = 24 and mr = 4 and oh = 4
      and ih = 2 and w = "block_w0 0" and ad = "1 / 2" and pd = "1 / 2"]
  by (simp add: placeholder_def)

subsection \<open>Static shape of the pixel embedding\<close>

lemma reshape_rank3_result:
  assumes "reshape_shape sh [Some (- 1), Some p, Some d] = Inr r" and "0 < p" and "0 < d"
  shows "\<exists>v. r = [v, Some p, Some d]"
  using assms(1) unfolding reshape_wild_rank3 [OF assms(2,3)]
  by (auto split: option.splits if_splits)

lemma broadcast_leading_one:
  assumes "0 < p" and "0 < d"
  shows "broadcast_shape [v, Some p, Some d] [Some p, Some d] = Inr [v, Some p, Some d]"
  by (cases v) (simp_all add: broadcast_shape_def broadcast_dim_def)

lemma keras_PatchEncoder_positive:
  assumes "bindR (PatchEncoder_init keras w p d) k = Inr t"
  shows "0 < p" and "0 < d"
  using assms
  by (auto simp add: PatchEncoder_init_def keras_def checked_def split: if_splits)

lemma keras_PatchEncoder_result:
  assumes "bindR (PatchEncoder_init keras w p d) (\<lambda>enc. PatchEncoder_call keras enc r) = Inr t"
    and "kshape r = [v, Some p, Some d]"
  shows "kshape t = [v, Some p, Some d]"
proof -
  note pos = keras_PatchEncoder_positive [OF assms(1)]
  from assms pos show ?thesis
    by (auto simp add: PatchEncoder_init_def PatchEncoder_call_def keras_def checked_def
        ktensor_def broadcast_leading_one elim!: bindR_InrE)
qed

lemma keras_pixel_embed_result:
  assumes "pixel_embed keras w x isz psz d s = Inr (t, n, ips)"
  shows "ips = [\<lceil>real_of_int (fst psz) / real_of_int s\<rceil>, \<lceil>real_of_int (snd psz) / real_of_int s\<rceil>]
    \<and> (\<exists>v. kshape t = [v, Some (ips ! 0 * ips ! 1), Some d])"
proof -
  let ?i0 = "\<lceil>real_of_int (fst psz) / real_of_int s\<rceil>"
  let ?i1 = "\<lceil>real_of_int (snd psz) / real_of_int s\<rceil>"
  from assms obtain a b c e where sh: "tensor_shape keras x = [a, b, c, e]"
    by (auto simp add: pixel_embed_def split: list.splits)
  from assms sh obtain y r where
    r: "tf_reshape keras y [Some (- 1), Some (?i0 * ?i1), Some d] = Inr r"
    and t: "bindR (PatchEncoder_init keras (w_pixel_encoder w) (?i0 * ?i1) d)
              (\<lambda>enc. PatchEncoder_call keras enc r) = Inr t"
    and i: "ips = [?i0, ?i1]"
    by (auto simp add: pixel_embed_def py_floordiv_def math_ceil_truediv_def Let_def
        split: if_splits elim!: bindR_InrE)
  note pos = keras_PatchEncoder_positive [OF t]
  from r have "reshape_shape (kshape y) [Some (- 1), Some (?i0 * ?i1), Some d] = Inr (kshape r)"
    by (auto simp add: keras_def ktensor_def elim!: bindR_InrE)
  from reshape_rank3_result [OF this pos]
  obtain v where "kshape r = [v, Some (?i0 * ?i1), Some d]"
    by blast
  from keras_PatchEncoder_result [OF t this] have "kshape t = [v, Some (?i0 * ?i1), Some d]" .
  with i show ?thesis by simp
qed

lemma reshape_pixels_scenario:
  assumes "0 < d"
  shows "reshape_shape [batch, Some 4, Some 4, Some (4 * d)] [Some (- 1), Some 4, Some d]
           = Inr [map_option (\<lambda>b. b * 16) batch, Some 4, Some d]"
proof (cases batch)
  case None
  from assms have "num_elements [None, Some 4, Some 4, Some (4 * d)] = None"
    by (simp add: num_elements_def)
  then show ?thesis
    unfolding None reshape_wild_rank3 [OF zero_less_numeral assms] by simp
next
  case (Some b)
  have e: "num_elements [Some b, Some 4, Some 4, Some (4 * d)] = Some ((b * 16) * (4 * d))"
    by (simp add: num_elements_def)
  have m: "(b * 16) * (4 * d) mod (4 * d) = 0"
    and q: "(b * 16) * (4 * d) div (4 * d) = b * 16"
    using assms by simp_all
  show ?thesis
    unfolding Some reshape_wild_rank3 [OF zero_less_numeral assms] e
    by (simp only: option.case m q if_True option.map simp_thms)
qed

lemma keras_pixel_embed_scenario:
  assumes "kshape x = [batch, Some 32, Some 32, Some 3]" and "0 < d"
  shows "\<exists>t. pixel_embed keras w x (32, 32) (8, 8) d 4 = Inr (t, 16, [2, 2])
           \<and> kshape t = [map_option (\<lambda>b. b * 16) batch, Some 4, Some d]"
  using assms
  by (simp add: pixel_embed_def PatchEncoder_init_def PatchEncoder_call_def py_floordiv_def
      math_ceil_truediv_def keras_call_defs Conv2D_shape_def conv_output_dim_def
      conv_output_length_def extract_patches_shape_def windowed_output_size_def
      reshape_pixels_scenario broadcast_leading_one Let_def)

text \<open>
  Claim C2. On symbolic tensors, whenever \<^verbatim>\<open>pixel_embed\<close> returns, the pixel embedding
  has rank 3, its last dimension is the configured inner dimension, the inner patch
  geometry is the ceiling of patch size over stride per axis, and the middle dimension
  is the product of that geometry. For a batch (known or unknown) of 32 by 32 by 3
  images with patch size (8, 8) and stride 4 it returns 16 patches, geometry (2, 2) and
  a pixel embedding of shape (batch * 16, 4, inner_dim); for a batch of 2 the leading
  dimension is 2 * 16.
\<close>

theorem pixel_embed_shape:
  "(pixel_embed keras w x isz psz d s = Inr (t, n, ips) \<longrightarrow>
      length (kshape t) = 3 \<and> last (kshape t) = Some d
      \<and> ips = [\<lceil>real_of_int (fst psz) / real_of_int s\<rceil>,
                \<lceil>real_of_int (snd psz) / real_of_int s\<rceil>]
      \<and> kshape t ! 1 = Some (ips ! 0 * ips ! 1))
   \<and> (kshape x' = [batch, Some 32, Some 32, Some 3] \<and> 0 < d' \<longrightarrow>
      (\<exists>t'. pixel_embed keras w' x' (32, 32) (8, 8) d' 4 = Inr (t', 16, [2, 2])
         \<and> kshape t' = [map_option (\<lambda>b. b * 16) batch, Some (2 * 2), Some d']))"
proof (intro conjI impI)
  assume r: "pixel_embed keras w x isz psz d s = Inr (t, n, ips)"
  from keras_pixel_embed_result [OF r] obtain v where
    i: "ips = [\<lceil>real_of_int (fst psz) / real_of_int s\<rceil>,
               \<lceil>real_of_int (snd psz) / real_of_int s\<rceil>]"
    and k: "kshape t = [v, Some (ips ! 0 * ips ! 1), Some d]"
    by blast
  from k show "length (kshape t) = 3" by simp
  from k show "last (kshape t) = Some d" by simp
  from i show "ips = [\<lceil>real_of_int (fst psz) / real_of_int s\<rceil>,
                      \<lceil>real_of_int (snd psz) / real_of_int s\<rceil>]" .
  from k show "kshape t ! 1 = Some (ips ! 0 * ips ! 1)" by simp
next
  assume "kshape x' = [batch, Some 32, Some 32, Some 3] \<and> 0 < d'"
  then have "kshape x' = [batch, Some 32, Some 32, Some 3]" and "0 < d'" by simp_all
  from keras_pixel_embed_scenario [OF this]
  show "\<exists>t'. pixel_embed keras w' x' (32, 32) (8, 8) d' 4 = Inr (t', 16, [2, 2])
         \<and> kshape t' = [map_option (\<lambda>b. b * 16) batch, Some (2 * 2), Some d']"
    by simp
qed

text \<open>
  Witness for C2: a batch of 2 images of 32 by 32 by 3, inner dimension 48.
\<close>

theorem pixel_embed_shape_witness:
  "\<exists>t. pixel_embed keras pixel_w0 (placeholder [Some 2, Some 32, Some 32, Some 3])
       (32, 32) (8, 8) 48 4 = Inr (t, 16, [2, 2])
     \<and> kshape t = [Some (2 * 16), Some 4, Some 48]
     \<and> length (kshape t) = 3 \<and> last (kshape t) = Some 48"
proof -
  have h: "kshape (placeholder [Some 2, Some 32, Some 32, Some 3])
          = [Some 2, Some 32, Some 32, Some 3] \<and> (0 :: int) < 48"
    by (simp add: placeholder_def)
  have "\<exists>t'. pixel_embed keras pixel_w0 (placeholder [Some 2, Some 32, Some 32, Some 3])
            (32, 32) (8, 8) 48 4 = Inr (t', 16, [2, 2])
          \<and> kshape t' = [map_option (\<lambda>b. b * 16) (Some 2), Some (2 * 2), Some 48]"
    by (rule mp [OF conjunct2 [OF pixel_embed_shape] h])
  then obtain t where
    t: "pixel_embed keras pixel_w0 (placeholder [Some 2, Some 32, Some 32, Some 3])
       (32, 32) (8, 8) 48 4 = Inr (t, 16, [2, 2])"
    and k: "kshape t = [Some (2 * 16), Some 4, Some 48]"
    by auto
  from pixel_embed_shape [where w = pixel_w0
      and x = "placeholder [Some 2, Some 32, Some 32, Some 3]" and isz = "(32, 32)"
      and psz = "(8, 8)" and d = 48 and s = 4 and t = t and n = 16 and ips = "[2, 2]"] t
  have "length (kshape t) = 3 \<and> last (kshape t) = Some 48"
    by simp
  with t k show ?thesis by blast
qed

subsection \<open>What is detected when the graph is built\<close>

lemma keras_block_loop_shapes:
  assumes "kshape px = [None, Some npx, Some idim]" and "kshape pt = [None, Some np, Some od]"
    and "0 < np" and "0 < npx" and "0 < idim" and "0 < od"
    and "0 < mr" and "0 < oh" and "0 < ih" and "0 \<le> ad" and "ad \<le> 1"
  shows "\<exists>px' pt'. block_loop keras wb n od idim npx oh ih mr ad pd (px, pt) = Inr (px', pt')
           \<and> kshape px' = [None, Some npx, Some idim]
           \<and> kshape pt' = [None, Some np, Some od]"
proof -
  let ?I = "\<lambda>s. kshape (fst s) = [None, Some npx, Some idim]
              \<and> kshape (snd s) = [None, Some np, Some od]"
  let ?body = "\<lambda>i (pixel_embedding, patch_embedding).
         transformer_in_transformer_block keras (wb i) pixel_embedding patch_embedding
           od idim npx oh ih mr ad pd"
  have step: "\<exists>s'. ?body i s = Inr s' \<and> ?I s'" if "?I s" for i s
  proof -
    from that have a: "kshape (fst s) = [None, Some npx, Some idim]"
      and b: "kshape (snd s) = [None, Some np, Some od]"
      by simp_all
    from keras_block_shapes [OF a b reshape_fold_unknown [OF assms(3,4,5)]
        assms(5,6,7,8,9,10,11)]
    obtain px' pt' where
      "transformer_in_transformer_block keras (wb i) (fst s) (snd s) od idim npx oh ih mr ad pd
         = Inr (px', pt')"
      "kshape px' = kshape (fst s)" "kshape pt' = kshape (snd s)"
      by blast
    with a b show ?thesis by (simp add: split_beta)
  qed
  from assms(1,2) have "?I (px, pt)" by simp
  from for_loop_invariant [of ?I ?body, OF step this]
  show ?thesis
    unfolding block_loop_def by auto
qed

lemma keras_input_shape:
  "\<exists>inp. layers_Input keras input_shape = Inr inp
      \<and> kshape inp = [None, Some 32, Some 32, Some 3]"
  by (simp add: keras_def input_shape_def)

lemma keras_data_augmentation_shape:
  assumes "kshape inp = [b, h, w, c]"
  shows "\<exists>x. data_augmentation keras wa inp = Inr x \<and> kshape x = [b, Some 96, Some 96, c]"
  using assms
  by (simp add: data_augmentation_def image_size_def keras_call_defs Resizing_shape_def
      image_shape_def)

lemma ceiling_quarter_bounds:
  assumes "1 \<le> p" and "p \<le> 96"
  shows "0 < \<lceil>real_of_int p / 4\<rceil>" and "\<lceil>real_of_int p / 4\<rceil> \<le> 24"
proof -
  from assms(1) have "0 < real_of_int p / 4" by simp
  then show "0 < \<lceil>real_of_int p / 4\<rceil>" by (simp add: less_ceiling_iff)
  from assms(2) have "real_of_int p / 4 \<le> real_of_int 24" by simp
  then show "\<lceil>real_of_int p / 4\<rceil> \<le> 24" by (simp only: ceiling_le_iff)
qed

lemma keras_PatchEncoder_builds:
  assumes "kshape r = [v, Some p, Some d]" and "0 < p" and "0 < d"
  shows "\<exists>t. bindR (PatchEncoder_init keras w p d) (\<lambda>enc. PatchEncoder_call keras enc r) = Inr t
           \<and> kshape t = [v, Some p, Some d]"
  using assms
  by (simp add: PatchEncoder_init_def PatchEncoder_call_def keras_def checked_def ktensor_def
      broadcast_leading_one)

text \<open>
  The pixel embedder on the resized 96 by 96 images, stride 4: every patch size from 1
  to 96 per axis builds.
\<close>

lemma keras_pixel_embed_builds:
  assumes "kshape x = [None, Some 96, Some 96, Some 3]"
    and "1 \<le> ph" and "ph \<le> 96" and "1 \<le> pw" and "pw \<le> 96"
  shows "\<exists>px i0 i1. pixel_embed keras w x (96, 96) (ph, pw) 32 4
             = Inr (px, (96 div ph) * (96 div pw), [i0, i1])
           \<and> 0 < i0 \<and> 0 < i1 \<and> kshape px = [None, Some (i0 * i1), Some 32]"
proof -
  define i0 where "i0 = \<lceil>real_of_int ph / 4\<rceil>"
  define i1 where "i1 = \<lceil>real_of_int pw / 4\<rceil>"
  have b0: "0 < i0" "i0 \<le> 24" unfolding i0_def by (rule ceiling_quarter_bounds [OF assms(2,3)])+
  have b1: "0 < i1" "i1 \<le> 24" unfolding i1_def by (rule ceiling_quarter_bounds [OF assms(4,5)])+
  from b0 b1 have d: "0 < 24 div i0" "0 < 24 div i1"
    by (simp_all add: pos_imp_zdiv_pos_iff)
  from b0 b1 have p: "0 < i0 * i1" by simp
  from assms(2,4) have z: "ph \<noteq> 0" "pw \<noteq> 0" by simp_all
  from assms(1) have ts: "tensor_shape keras x = [None, Some 96, Some 96, Some 3]"
    by (simp add: keras_def)
  from assms(1) obtain x1 where
    x1: "call_layer (layers_Conv2D keras 32 7 4 SAME (w_conv w)) x = Inr x1"
      "kshape x1 = [None, Some 24, Some 24, Some 32]"
    by (simp add: keras_call_defs Conv2D_shape_def conv_output_dim_def conv_output_length_def)
  have w0: "windowed_output_size 24 i0 i0 VALID = Inr (24 div i0)"
    and w1: "windowed_output_size 24 i1 i1 VALID = Inr (24 div i1)"
    using b0 b1 d by (simp_all add: windowed_output_size_def Let_def)
  from x1(2) b0 b1 obtain x2 where
    x2: "tf_image_extract_patches keras x1 [1, i0, i1, 1] [1, i0, i1, 1] [1, 1, 1, 1] VALID
           = Inr x2"
      "kshape x2 = [None, Some (24 div i0), Some (24 div i1), Some (i0 * i1 * 32)]"
    by (simp add: keras_def ktensor_def extract_patches_shape_def w0 w1)
  from d p b0 b1 have "num_elements [None, Some (24 div i0), Some (24 div i1), Some (i0 * i1 * 32)]
      = None"
    by (simp add: num_elements_def)
  with x2(2) have "reshape_shape (kshape x2) [Some (- 1), Some (i0 * i1), Some 32]
      = Inr [None, Some (i0 * i1), Some 32]"
    by (simp add: reshape_wild_rank3 [OF p])
  then obtain r where
    r: "tf_reshape keras x2 [Some (- 1), Some (i0 * i1), Some 32] = Inr r"
      "kshape r = [None, Some (i0 * i1), Some 32]"
    by (simp add: keras_def ktensor_def)
  from keras_PatchEncoder_builds [OF r(2) p] obtain t where
    t: "bindR (PatchEncoder_init keras (w_pixel_encoder w) (i0 * i1) 32)
          (\<lambda>enc. PatchEncoder_call keras enc r) = Inr t"
      "kshape t = [None, Some (i0 * i1), Some 32]"
    by auto
  have t': "bindR (PatchEncoder_init keras (w_pixel_encoder w) (i0 * i1) 32)
          (\<lambda>enc. bindR (PatchEncoder_call keras enc r) k) = k t" for k
    using t(1) by (simp add: bindR_assoc [symmetric])
  have "pixel_embed keras w x (96, 96) (ph, pw) 32 4
          = Inr (t, (96 div ph) * (96 div pw), [i0, i1])"
    using ts z x1(1) x2(1) r(1)
    by (simp add: pixel_embed_def py_floordiv_def math_ceil_truediv_def Let_def
        i0_def [symmetric] i1_def [symmetric] t')
  with b0 b1 t(2) show ?thesis by blast
qed

lemma keras_patch_embed_builds:
  assumes "kshape px = [None, Some npx, Some idim]"
    and "0 < n" and "0 < npx" and "0 < idim" and "0 < od"
  shows "\<exists>pt. patch_embed keras w px n od idim npx = Inr pt
           \<and> kshape pt = [None, Some n, Some od]"
proof -
  from assms(1) reshape_fold_unknown [OF assms(2,3,4)] obtain r where
    r: "tf_reshape keras px [Some (- 1), Some n, Some (idim * npx)] = Inr r"
      "kshape r = [None, Some n, Some (idim * npx)]"
    by (simp add: keras_def ktensor_def)
  from r(2) assms(5) obtain r1 where
    r1: "call_layer (layers_LayerNormalization keras (1 / 100000) (w_norm1 w)) r = Inr r1"
      "kshape r1 = [None, Some n, Some (idim * npx)]"
    by (simp add: keras_call_defs)
  from r1(2) assms(5) obtain r2 where
    r2: "call_layer (layers_Dense keras od Linear (w_dense w)) r1 = Inr r2"
      "kshape r2 = [None, Some n, Some od]"
    by (simp add: keras_call_defs)
  from r2(2) obtain r3 where
    r3: "call_layer (layers_LayerNormalization keras (1 / 100000) (w_norm2 w)) r2 = Inr r3"
      "kshape r3 = [None, Some n, Some od]"
    by (simp add: keras_call_defs)
  from keras_PatchEncoder_builds [OF r3(2) assms(2,5)] obtain t where
    t: "bindR (PatchEncoder_init keras (w_patch_encoder w) n od)
          (\<lambda>enc. PatchEncoder_call keras enc r3) = Inr t"
      "kshape t = [None, Some n, Some od]"
    by auto
  have t': "bindR (PatchEncoder_init keras (w_patch_encoder w) n od)
          (\<lambda>enc. bindR (PatchEncoder_call keras enc r3) k) = k t" for k
    using t(1) by (simp add: bindR_assoc [symmetric])
  from t(2) obtain u where
    u: "call_layer (layers_Dropout keras projection_dropout (w_dropout w)) t = Inr u"
      "kshape u = [None, Some n, Some od]"
    by (simp add: keras_call_defs projection_dropout_def)
  from r(1) r1(1) r2(1) r3(1) u have "patch_embed keras w px n od idim npx = Inr u"
    by (simp add: patch_embed_def t')
  with u(2) show ?thesis by blast
qed

lemma keras_head_shape:
  assumes "kshape pt = [b, Some np, Some od]"
  shows "\<exists>pt' x out.
      call_layer (layers_LayerNormalization keras (1 / 100000) w1) pt = Inr pt'
      \<and> call_layer (layers_GlobalAvgPool1D keras) pt' = Inr x
      \<and> call_layer (layers_Dense keras num_classes Softmax w2) x = Inr out
      \<and> kshape out = [b, Some 100]"
  using assms
  by (simp add: keras_call_defs GlobalAvgPool1D_shape_def Dense_shape_def num_classes_def)

text \<open>
  \<^verbatim>\<open>get_model\<close> with the notebook's dimensions: every patch size from 1 to 96 per axis
  builds, whether or not it divides the image size 96.
\<close>

lemma keras_get_model_builds:
  assumes "1 \<le> ph" and "ph \<le> 96" and "1 \<le> pw" and "pw \<le> 96"
    and "0 \<le> ad" and "ad \<le> 1"
  shows "\<not> is_error (get_model keras w (96, 96) (ph, pw) 64 32 nl 4 2 4 ad pd 4)"
proof -
  from keras_input_shape obtain inp where
    inp: "layers_Input keras input_shape = Inr inp"
      "kshape inp = [None, Some 32, Some 32, Some 3]"
    by blast
  from keras_data_augmentation_shape [OF inp(2)] obtain x where
    x: "data_augmentation keras (w_augmentation w) inp = Inr x"
      "kshape x = [None, Some 96, Some 96, Some 3]"
    by blast
  from keras_pixel_embed_builds [OF x(2) assms(1,2,3,4)] obtain px i0 i1 where
    px: "pixel_embed keras (w_pixel_embed w) x (96, 96) (ph, pw) 32 4
           = Inr (px, (96 div ph) * (96 div pw), [i0, i1])"
      "0 < i0" "0 < i1" "kshape px = [None, Some (i0 * i1), Some 32]"
    by blast
  from assms(1,2,3,4) have "0 < 96 div ph" "0 < 96 div pw"
    by (simp_all add: pos_imp_zdiv_pos_iff)
  then have n: "0 < (96 div ph) * (96 div pw)" by simp
  from px(2,3) have p: "0 < i0 * i1" by simp
  from keras_patch_embed_builds [where od = 64 and w = "w_patch_embed w", OF px(4) n p]
  obtain pt where
    pt: "patch_embed keras (w_patch_embed w) px ((96 div ph) * (96 div pw)) 64 32 (i0 * i1)
           = Inr pt"
      "kshape pt = [None, Some ((96 div ph) * (96 div pw)), Some 64]"
    by auto
  from keras_block_loop_shapes [OF px(4) pt(2) n p _ _ _ _ _ assms(5,6)] obtain px' pt' where
    l: "block_loop keras (w_blocks w) nl 64 32 (i0 * i1) 4 2 4 ad pd (px, pt) = Inr (px', pt')"
      "kshape pt' = [None, Some ((96 div ph) * (96 div pw)), Some 64]"
    by force
  from keras_head_shape [OF l(2)] obtain pt'' y out where
    h: "call_layer (layers_LayerNormalization keras (1 / 100000) (w_final_norm w)) pt' = Inr pt''"
      "call_layer (layers_GlobalAvgPool1D keras) pt'' = Inr y"
      "call_layer (layers_Dense keras num_classes Softmax (w_head w)) y = Inr out"
    by blast
  from inp(1) x(1) px(1) pt(1) l(1) h show ?thesis
    by (simp add: get_model_def is_error_def)
qed

text \<open>
  Claim C8, as stated, fails: with \<^verbatim>\<open>patch_size = (7, 7)\<close>, which does not divide the
  image size 96, \<^verbatim>\<open>get_model\<close> builds the model without any error. The batch dimension
  of the model input is unknown at graph-build time, so the \<^verbatim>\<open>tf.reshape\<close> calls that
  fold pixels into patches cannot be checked there.
\<close>

theorem inconsistent_shapes_fail_at_build_counterexample:
  "(96 :: int) mod 7 \<noteq> 0
   \<and> \<not> is_error (get_model keras model_w0 image_size (7, 7) outer_block_embedding_dim
          inner_block_embedding_dim num_transformer_layer outer_block_num_heads
          inner_block_num_heads mlp_ratio attention_dropout projection_dropout first_stride)"
  using keras_get_model_builds [where ph = 7 and pw = 7 and ad = attention_dropout
      and w = model_w0 and pd = projection_dropout and nl = num_transformer_layer]
  by (simp add: image_size_def attention_dropout_def outer_block_embedding_dim_def inner_block_embedding_dim_def
      num_transformer_layer_def outer_block_num_heads_def inner_block_num_heads_def
      mlp_ratio_def first_stride_def)

lemma add_shape_mismatch:
  assumes "od \<noteq> outd" and "od \<noteq> 1" and "outd \<noteq> 1"
  shows "add_shape [[a, Some p, Some outd], [a, Some p, Some od]] = Inl FrameworkShapeError"
  using assms
  by (cases a) (simp_all add: add_shape_def merge_elemwise_shape_def merge_dim_def)

lemma keras_outer_step_mismatch:
  assumes "kshape px = [bp, Some npx, Some idim]" and "kshape pt = [b, Some np, Some outd]"
    and "reshape_shape [bp, Some npx, Some idim] [Some (- 1), Some np, Some (idim * npx)]
           = Inr [b, Some np, Some (idim * npx)]"
    and "0 < od" and "od \<noteq> outd" and "od \<noteq> 1" and "outd \<noteq> 1"
  shows "outer_transformer_step keras w px pt od idim npx oh mr ad = Inl FrameworkShapeError"
  using assms
  by (simp add: outer_transformer_step_def keras_call_defs add_shape_mismatch)

lemma keras_block_mismatch:
  assumes "kshape px = [map_option (\<lambda>n. n * np) batch, Some npx, Some idim]"
    and "kshape pt = [batch, Some np, Some outd]"
    and "0 < np" and "0 < npx" and "0 < idim" and "0 < mr" and "0 < ih"
    and "1 < od" and "1 < outd" and "od \<noteq> outd" and "0 \<le> ad" and "ad \<le> 1"
  shows "transformer_in_transformer_block keras w px pt od idim npx oh ih mr ad pd
           = Inl FrameworkShapeError"
proof -
  have f: "reshape_shape [map_option (\<lambda>n. n * np) batch, Some npx, Some idim]
             [Some (- 1), Some np, Some (idim * npx)] = Inr [batch, Some np, Some (idim * npx)]"
    by (cases batch)
       (simp_all add: reshape_fold_unknown [OF assms(3,4,5)] reshape_fold_known [OF assms(3,4,5)])
  from keras_inner_step_shape [OF assms(1) assms(5) assms(6) assms(7) assms(11) assms(12)]
  obtain px' where i: "inner_transformer_step keras w px idim ih mr ad = Inr px'"
      "kshape px' = kshape px"
    by blast
  from i(2) assms(1)
  have s: "kshape px' = [map_option (\<lambda>n. n * np) batch, Some npx, Some idim]" by simp
  from assms(8,9) have "0 < od" "od \<noteq> 1" "outd \<noteq> 1" by simp_all
  from keras_outer_step_mismatch [OF s assms(2) f this(1) assms(10) this(2,3)] i(1)
  show ?thesis
    by (simp add: block_decompose)
qed

text \<open>
  Claim C8, amended. Whenever a framework call made by \<^verbatim>\<open>pixel_embed\<close>,
  \<^verbatim>\<open>patch_embed\<close>, \<^verbatim>\<open>transformer_in_transformer_block\<close> or \<^verbatim>\<open>get_model\<close> raises, the
  function raises that same error: if a framework behaves as another one except that
  its calls may raise \<open>e\<close>, each of the four functions returns what it returned before or
  raises \<open>e\<close>; nothing is caught, retried or masked. At graph-build time, with an
  attention dropout rate in [0, 1], an outer dimension passed to the block that differs
  from the patch embedding's (both greater than 1) is reported by the fusion step's
  addition as a framework shape error. With the notebook's image size 96, stride 4,
  dimensions 64 and 32, head counts 4 and 2 and mlp ratio 4, and an attention dropout
  rate in [0, 1], \<^verbatim>\<open>get_model\<close> builds without error for every patch size from 1 to 96
  in each axis, whether or not it divides the image size.
\<close>

theorem framework_errors_propagate:
  assumes "fails_more e fw fw'"
  shows "same_or_fails e (pixel_embed fw wp x isz psz d s) (pixel_embed fw' wp x isz psz d s)
    \<and> same_or_fails e (patch_embed fw wq px n od idim npx)
          (patch_embed fw' wq px n od idim npx)
    \<and> same_or_fails e
          (transformer_in_transformer_block fw wb px pt od idim npx oh ih mr ad pd)
          (transformer_in_transformer_block fw' wb px pt od idim npx oh ih mr ad pd)
    \<and> same_or_fails e (get_model fw wm isz psz od idim nl oh ih mr ad pd s)
          (get_model fw' wm isz psz od idim nl oh ih mr ad pd s)
    \<and> (kshape kx = [map_option (\<lambda>n. n * np) batch, Some knpx, Some kidim]
         \<and> kshape kt = [batch, Some np, Some outd]
         \<and> 0 < np \<and> 0 < knpx \<and> 0 < kidim \<and> 0 < kmr \<and> 0 < kih
         \<and> 1 < kod \<and> 1 < outd \<and> kod \<noteq> outd \<and> 0 \<le> kad \<and> kad \<le> 1
       \<longrightarrow> transformer_in_transformer_block keras kw kx kt kod kidim knpx koh kih kmr kad kpd
             = Inl FrameworkShapeError)
    \<and> (1 \<le> gph \<and> gph \<le> 96 \<and> 1 \<le> gpw \<and> gpw \<le> 96 \<and> 0 \<le> gad \<and> gad \<le> 1
       \<longrightarrow> \<not> is_error (get_model keras gw (96, 96) (gph, gpw) 64 32 gnl 4 2 4 gad gpd 4))"
proof (intro conjI impI)
  show "same_or_fails e (pixel_embed fw wp x isz psz d s) (pixel_embed fw' wp x isz psz d s)"
    by (rule same_or_fails_pixel_embed [OF assms])
  show "same_or_fails e (patch_embed fw wq px n od idim npx)
          (patch_embed fw' wq px n od idim npx)"
    by (rule same_or_fails_patch_embed [OF assms])
  show "same_or_fails e
          (transformer_in_transformer_block fw wb px pt od idim npx oh ih mr ad pd)
          (transformer_in_transformer_block fw' wb px pt od idim npx oh ih mr ad pd)"
    by (rule same_or_fails_block [OF assms])
  show "same_or_fails e (get_model fw wm isz psz od idim nl oh ih mr ad pd s)
          (get_model fw' wm isz psz od idim nl oh ih mr ad pd s)"
    by (rule same_or_fails_get_model [OF assms])
  assume "kshape kx = [map_option (\<lambda>n. n * np) batch, Some knpx, Some kidim]
         \<and> kshape kt = [batch, Some np, Some outd]
         \<and> 0 < np \<and> 0 < knpx \<and> 0 < kidim \<and> 0 < kmr \<and> 0 < kih
         \<and> 1 < kod \<and> 1 < outd \<and> kod \<noteq> outd \<and> 0 \<le> kad \<and> kad \<le> 1"
  then show "transformer_in_transformer_block keras kw kx kt kod kidim knpx koh kih kmr kad kpd
             = Inl FrameworkShapeError"
    by (elim conjE) (rule keras_block_mismatch)
next
  assume "1 \<le> gph \<and> gph \<le> 96 \<and> 1 \<le> gpw \<and> gpw \<le> 96 \<and> 0 \<le> gad \<and> gad \<le> 1"
  then show "\<not> is_error (get_model keras gw (96, 96) (gph, gpw) 64 32 gnl 4 2 4 gad gpd 4)"
    by (elim conjE) (rule keras_get_model_builds)
qed

text \<open>
  Witness for C8: the graph-building framework against the same framework with a
  \<^verbatim>\<open>tf.reshape\<close> that always raises; a block called with outer dimension 48 on a
  patch embedding of dimension 64; and the model built with patch size 10 by 7.
\<close>

theorem framework_errors_propagate_witness:
  "same_or_fails FrameworkShapeError
      (pixel_embed keras pixel_w0 (placeholder [None, Some 96, Some 96, Some 3])
         (96, 96) (8, 8) 32 4)
      (pixel_embed keras_reshape_raises pixel_w0 (placeholder [None, Some 96, Some 96, Some 3])
         (96, 96) (8, 8) 32 4)
   \<and> same_or_fails FrameworkShapeError
      (patch_embed keras patch_w0 (placeholder [None, Some 4, Some 32]) 144 64 32 4)
      (patch_embed keras_reshape_raises patch_w0 (placeholder [None, Some 4, Some 32])
         144 64 32 4)
   \<and> same_or_fails FrameworkShapeError
      (transformer_in_transformer_block keras (block_w0 0) (placeholder [None, Some 4, Some 32])
         (placeholder [None, Some 144, Some 64]) 64 32 4 4 2 4 (1 / 2) (1 / 2))
      (transformer_in_transformer_block keras_reshape_raises (block_w0 0)
         (placeholder [None, Some 4, Some 32])
         (placeholder [None, Some 144, Some 64]) 64 32 4 4 2 4 (1 / 2) (1 / 2))
   \<and> same_or_fails FrameworkShapeError
      (get_model keras model_w0 (96, 96) (8, 8) 64 32 5 4 2 4 (1 / 2) (1 / 2) 4)
      (get_model keras_reshape_raises model_w0 (96, 96) (8, 8) 64 32 5 4 2 4 (1 / 2) (1 / 2) 4)
   \<and> transformer_in_transformer_block keras (block_w0 0)
         (placeholder [Some (2 * 144), Some 4, Some 32]) (placeholder [Some 2, Some 144, Some 64])
         48 32 4 4 2 4 (1 / 2) (1 / 2)
       = Inl FrameworkShapeError
   \<and> \<not> is_error (get_model keras model_w0 (96, 96) (10, 7) 64 32 5 4 2 4 (1 / 2) (1 / 2) 4)"
  using framework_errors_propagate [OF keras_reshape_raises_fails_more,
      where wp = pixel_w0 and x = "placeholder [None, Some 96, Some 96, Some 3]"
        and isz = "(96, 96)" and psz = "(8, 8)" and d = 32 and s = 4
        and wq = patch_w0 and px = "placeholder [None, Some 4, Some 32]" and n = 144
        and od = 64 and idim = 32 and npx = 4 and wb = "block_w0 0"
        and pt = "placeholder [None, Some 144, Some 64]" and oh = 4 and ih = 2 and mr = 4
        and ad = "1 / 2" and pd = "1 / 2" and wm = model_w0 and nl = 5
        and kx = "placeholder [Some (2 * 144), Some 4, Some 32]" and np = 144
        and batch = "Some 2" and knpx = 4 and kidim = 32
        and kt = "placeholder [Some 2, Some 144, Some 64]" and outd = 64 and kmr = 4
        and kih = 2 and kod = 48 and kw = "block_w0 0" and koh = 4 and kad = "1 / 2"
        and kpd = "1 / 2" and gph = 10 and gpw = 7 and gad = "1 / 2" and gw = model_w0
        and gnl = 5 and gpd = "1 / 2"]
  by (simp add: placeholder_def)

end
